theory Spec2Isabelle
  imports Complex_Main
begin

section \<open>Exceptions\<close>

text \<open>
  Every way in which the two methods of \<open>SimilarityCriterion\<close> can stop with an exception
  is a value. \<open>AssertionError\<close> is the criterion's own \<open>assert\<close>; \<open>KeyError\<close>,
  \<open>TypeError\<close>, \<open>ZeroDivisionError\<close> and \<open>OverflowError\<close> come from the Python operations
  the criterion performs itself (subscripting a dict, adding, comparing, dividing or
  iterating values);
  \<open>RuntimeError\<close> is the failure of an elementwise tensor operation on shapes that do
  not broadcast; \<open>Raised e\<close> is an exception \<open>e\<close> that left a call into the model or
  into a library (torch, sklearn).
\<close>

datatype 'e error =
    AssertionError string
  | KeyError string
  | TypeError
  | ZeroDivisionError
  | OverflowError
  | RuntimeError
  | Raised 'e

definition and_then :: "'e + 'a \<Rightarrow> ('a \<Rightarrow> 'e + 'b) \<Rightarrow> 'e + 'b" where
  "and_then m f = (case m of Inl e \<Rightarrow> Inl e | Inr x \<Rightarrow> f x)"

definition raised :: "'e + 'a \<Rightarrow> 'e error + 'a" where
  "raised m = (case m of Inl e \<Rightarrow> Inl (Raised e) | Inr x \<Rightarrow> Inr x)"

definition subscript :: "string \<Rightarrow> 'a option \<Rightarrow> 'e error + 'a" where
  \<comment> \<open>\<open>d[k]\<close> on a dict whose entry for \<open>k\<close> is the given option\<close>
  "subscript k v = (case v of None \<Rightarrow> Inl (KeyError k) | Some x \<Rightarrow> Inr x)"

section \<open>Numbers\<close>

text \<open>
  Floating-point values are idealised: a finite value is a real number and no operation
  rounds or leaves the finite range. The entries of the prediction and target vectors are
  taken to be finite. A float or a scalar tensor may also be infinite or not a number: the
  division of a tensor by zero does not raise, it yields such a value. The zero of an
  integer divisor is positive.
\<close>

datatype fl = Fin real | PosInf | NegInf | NaN

fun fl_add :: "fl \<Rightarrow> fl \<Rightarrow> fl" where
  "fl_add (Fin a) (Fin b) = Fin (a + b)"
| "fl_add NaN _ = NaN"
| "fl_add _ NaN = NaN"
| "fl_add PosInf NegInf = NaN"
| "fl_add NegInf PosInf = NaN"
| "fl_add PosInf _ = PosInf"
| "fl_add _ PosInf = PosInf"
| "fl_add NegInf _ = NegInf"
| "fl_add _ NegInf = NegInf"

fun fl_div :: "fl \<Rightarrow> fl \<Rightarrow> fl" where
  "fl_div NaN _ = NaN"
| "fl_div _ NaN = NaN"
| "fl_div (Fin a) (Fin b) =
     (if b \<noteq> 0 then Fin (a / b)
      else if 0 < a then PosInf else if a < 0 then NegInf else NaN)"
| "fl_div (Fin a) _ = Fin 0"
| "fl_div PosInf (Fin b) = (if 0 \<le> b then PosInf else NegInf)"
| "fl_div NegInf (Fin b) = (if 0 \<le> b then NegInf else PosInf)"
| "fl_div _ _ = NaN"

definition fl_ne :: "fl \<Rightarrow> fl \<Rightarrow> bool" where
  \<comment> \<open>not-a-number differs from everything\<close>
  "fl_ne a b = (a = NaN \<or> b = NaN \<or> a \<noteq> b)"

text \<open>
  A Python number as the criterion meets it: an \<open>int\<close>, a \<open>float\<close>, or a scalar tensor
  (\<open>loss.data\<close>).
\<close>

datatype number = PyInt int | PyFloat fl | Tensor fl

fun to_fl :: "number \<Rightarrow> fl" where
  "to_fl (PyInt i) = Fin (of_int i)"
| "to_fl (PyFloat x) = x"
| "to_fl (Tensor t) = t"

fun is_tensor :: "number \<Rightarrow> bool" where
  "is_tensor (Tensor _) = True"
| "is_tensor _ = False"

text \<open>
  Where an \<open>int\<close> meets a \<open>float\<close>, Python converts the \<open>int\<close>, which raises when it is too
  large for a double. Where it meets a tensor, torch converts it to a 64-bit integer scalar,
  which raises when it does not fit.
\<close>

definition float_of_int :: "int \<Rightarrow> 'e error + fl" where
  "float_of_int i =
     (if \<bar>i\<bar> < 2 ^ 1024 - 2 ^ 970 then Inr (Fin (of_int i)) else Inl OverflowError)"

definition fits_int64 :: "int \<Rightarrow> bool" where
  "fits_int64 i = (- (2 ^ 63) \<le> i \<and> i < 2 ^ 63)"

definition tensor_scalar :: "int \<Rightarrow> 'e error + fl" where
  "tensor_scalar i = (if fits_int64 i then Inr (Fin (of_int i)) else Inl OverflowError)"

fun py_add :: "number \<Rightarrow> number \<Rightarrow> 'e error + number" where
  "py_add (PyInt a) (PyInt b) = Inr (PyInt (a + b))"
| "py_add (PyInt a) (PyFloat b) = and_then (float_of_int a) (\<lambda>x. Inr (PyFloat (fl_add x b)))"
| "py_add (PyFloat a) (PyInt b) = and_then (float_of_int b) (\<lambda>y. Inr (PyFloat (fl_add a y)))"
| "py_add (PyFloat a) (PyFloat b) = Inr (PyFloat (fl_add a b))"
| "py_add (PyInt a) (Tensor b) = and_then (tensor_scalar a) (\<lambda>x. Inr (Tensor (fl_add x b)))"
| "py_add (Tensor a) (PyInt b) = and_then (tensor_scalar b) (\<lambda>y. Inr (Tensor (fl_add a y)))"
| "py_add (PyFloat a) (Tensor b) = Inr (Tensor (fl_add a b))"
| "py_add (Tensor a) (PyFloat b) = Inr (Tensor (fl_add a b))"
| "py_add (Tensor a) (Tensor b) = Inr (Tensor (fl_add a b))"

text \<open>
  \<open>x / y\<close>: between Python numbers a zero divisor raises, after the conversion of an
  \<open>int\<close> operand where the other one is a \<open>float\<close>; the quotient of two \<open>int\<close>s raises
  when it is too large for a double. As soon as one operand is a tensor the division is
  the tensor's, and a zero divisor does not raise.
\<close>

fun py_truediv :: "number \<Rightarrow> number \<Rightarrow> 'e error + number" where
  "py_truediv (PyInt a) (PyInt b) =
     (if b = 0 then Inl ZeroDivisionError
      else if \<bar>real_of_int a / real_of_int b\<bar> < 2 ^ 1024 - 2 ^ 970
      then Inr (PyFloat (Fin (real_of_int a / real_of_int b)))
      else Inl OverflowError)"
| "py_truediv (PyInt a) (PyFloat b) =
     and_then (float_of_int a) (\<lambda>x.
       if b = Fin 0 then Inl ZeroDivisionError else Inr (PyFloat (fl_div x b)))"
| "py_truediv (PyFloat a) (PyInt b) =
     and_then (float_of_int b) (\<lambda>y.
       if y = Fin 0 then Inl ZeroDivisionError else Inr (PyFloat (fl_div a y)))"
| "py_truediv (PyFloat a) (PyFloat b) =
     (if b = Fin 0 then Inl ZeroDivisionError else Inr (PyFloat (fl_div a b)))"
| "py_truediv (PyInt a) (Tensor b) = and_then (tensor_scalar a) (\<lambda>x. Inr (Tensor (fl_div x b)))"
| "py_truediv (Tensor a) (PyInt b) = and_then (tensor_scalar b) (\<lambda>y. Inr (Tensor (fl_div a y)))"
| "py_truediv (PyFloat a) (Tensor b) = Inr (Tensor (fl_div a b))"
| "py_truediv (Tensor a) (PyFloat b) = Inr (Tensor (fl_div a b))"
| "py_truediv (Tensor a) (Tensor b) = Inr (Tensor (fl_div a b))"

text \<open>
  \<open>x != y\<close> used as a condition. Python compares an \<open>int\<close> with a \<open>float\<close> exactly;
  torch converts an \<open>int\<close> compared with a tensor.
\<close>

fun py_ne :: "number \<Rightarrow> number \<Rightarrow> 'e error + bool" where
  "py_ne (PyInt a) (PyInt b) = Inr (a \<noteq> b)"
| "py_ne (PyInt a) (Tensor b) = and_then (tensor_scalar a) (\<lambda>x. Inr (fl_ne x b))"
| "py_ne (Tensor a) (PyInt b) = and_then (tensor_scalar b) (\<lambda>y. Inr (fl_ne a y))"
| "py_ne x y = Inr (fl_ne (to_fl x) (to_fl y))"

text \<open>A value stored in a logging dictionary: a number or a list of floats.\<close>

datatype pyval = PyNum number | PyList "real list"

section \<open>Tensors\<close>

text \<open>
  A tensor of any shape, as \<open>model.get_targets\<close> may return it. \<open>view(-1)\<close> lists its
  entries in row-major order and \<open>numel\<close> counts them.
\<close>

datatype tensor = Scalar real | Dim "tensor list"

fun view_flat :: "tensor \<Rightarrow> real list" where
  "view_flat (Scalar x) = [x]"
| "view_flat (Dim ts) = concat (map view_flat ts)"

definition numel :: "real list \<Rightarrow> int" where
  "numel t = int (length t)"

text \<open>
  One-dimensional tensors are lists. A binary elementwise operation broadcasts: the
  lengths must agree unless one of them is 1.
\<close>

definition broadcast2 :: "('a \<Rightarrow> 'b \<Rightarrow> 'c) \<Rightarrow> 'a list \<Rightarrow> 'b list \<Rightarrow> 'c list option" where
  \<comment> \<open>\<open>None\<close>: the two lengths do not broadcast\<close>
  "broadcast2 f xs ys =
     (if length xs = length ys then Some (map (\<lambda>(x, y). f x y) (zip xs ys))
      else if length xs = 1 then Some (map (f (hd xs)) ys)
      else if length ys = 1 then Some (map (\<lambda>x. f x (hd ys)) xs)
      else None)"

definition elementwise :: "('a \<Rightarrow> 'b \<Rightarrow> 'c) \<Rightarrow> 'a list \<Rightarrow> 'b list \<Rightarrow> 'e error + 'c list" where
  "elementwise f xs ys =
     (case broadcast2 f xs ys of None \<Rightarrow> Inl RuntimeError | Some zs \<Rightarrow> Inr zs)"

definition gt_scalar :: "real list \<Rightarrow> real \<Rightarrow> bool list" where
  \<comment> \<open>\<open>t > c\<close> for a tensor \<open>t\<close> and a Python number \<open>c\<close>\<close>
  "gt_scalar t c = map (\<lambda>x. c < x) t"

definition tensor_eq :: "bool list \<Rightarrow> bool list \<Rightarrow> 'e error + bool list" where
  "tensor_eq a b = elementwise (\<lambda>x y. x = y) a b"

definition tensor_mul :: "bool list \<Rightarrow> bool list \<Rightarrow> 'e error + bool list" where
  "tensor_mul a b = elementwise (\<lambda>x y. x \<and> y) a b"

definition sum_item :: "bool list \<Rightarrow> int" where
  \<comment> \<open>\<open>t.sum().item()\<close> of a boolean tensor\<close>
  "sum_item t = int (length (filter (\<lambda>b. b) t))"

section \<open>The objects the criterion is given\<close>

text \<open>
  The torch functions the criterion calls are parameters: \<open>'l\<close> is the type of a logit
  tensor, which the criterion only passes on, and \<open>'e\<close> the exceptions a call may raise.
  The field \<open>cosine_similarity\<close> is \<open>torch.cosine_similarity(x1, x2, dim=1)\<close> on logits of
  shape (batch, features); its result is a one-dimensional tensor.
\<close>

datatype reduction = Mean | Sum

record ('l, 'e) torch =
  cosine_embedding_loss :: "'l \<Rightarrow> 'l \<Rightarrow> real list \<Rightarrow> real \<Rightarrow> reduction \<Rightarrow> 'e + fl"
  cosine_similarity :: "'l \<Rightarrow> 'l \<Rightarrow> 'e + real list"

text \<open>The module \<open>command.configs\<close>, of which the methods read the margin only.\<close>

record configs =
  cosine_embedding_loss_margin :: real

record criterion =
  classification_head_name :: string

text \<open>
  The sample dictionary; a field that is \<open>None\<close> is a key the dictionary lacks. The token
  counts are Python \<open>int\<close>s.
\<close>

record 'inp sample =
  net_input0 :: "'inp option"
  net_input1 :: "'inp option"
  ntokens0 :: "int option"
  ntokens1 :: "int option"
  target :: "tensor option"

text \<open>
  The model: \<open>classification_heads\<close> is \<open>None\<close> when the object has no such attribute,
  \<open>call\<close> is \<open>model(**net_input, classification_head_name=name)\<close>, which returns a pair
  whose first component is the logits.
\<close>

record ('inp, 'l, 'x, 'h, 'e) model =
  classification_heads :: "(string \<rightharpoonup> 'h) option"
  call :: "'inp \<Rightarrow> string \<Rightarrow> 'e + ('l \<times> 'x)"
  get_targets :: "'inp sample \<Rightarrow> 'l list \<Rightarrow> 'e + tensor"

section \<open>SimilarityCriterion.forward\<close>

definition has_head :: "('inp, 'l, 'x, 'h, 'e) model \<Rightarrow> criterion \<Rightarrow> bool" where
  \<comment> \<open>the condition of the \<open>assert\<close>\<close>
  "has_head mdl self =
     (case classification_heads mdl of
        None \<Rightarrow> False
      | Some heads \<Rightarrow> heads (classification_head_name self) \<noteq> None)"

definition forward ::
  "('l, 'e) torch \<Rightarrow> configs \<Rightarrow> criterion \<Rightarrow> ('inp, 'l, 'x, 'h, 'e) model \<Rightarrow> 'inp sample
     \<Rightarrow> 'e error + (fl \<times> int \<times> (string \<rightharpoonup> pyval))" where
  "forward lib cfg self mdl smp =
    (if \<not> has_head mdl self
     then Inl (AssertionError
       ''model must provide sentence classification head for --criterion=similarity'')
     else
      and_then (subscript ''net_input0'' (net_input0 smp)) (\<lambda>inp0.
      and_then (raised (call mdl inp0 (classification_head_name self))) (\<lambda>(logits0, _).
      and_then (subscript ''net_input1'' (net_input1 smp)) (\<lambda>inp1.
      and_then (raised (call mdl inp1 (classification_head_name self))) (\<lambda>(logits1, _).
      and_then (raised (get_targets mdl smp [logits0])) (\<lambda>t.
      let targets = view_flat t;
          sample_size = numel targets;
          margin = cosine_embedding_loss_margin cfg in
      and_then (raised (cosine_embedding_loss lib logits0 logits1 targets margin Sum)) (\<lambda>loss.
      and_then (subscript ''ntokens0'' (ntokens0 smp)) (\<lambda>n0.
      and_then (subscript ''ntokens1'' (ntokens1 smp)) (\<lambda>n1.
      and_then (raised (cosine_similarity lib logits0 logits1)) (\<lambda>preds.
      and_then (tensor_eq (gt_scalar preds margin) (gt_scalar targets margin)) (\<lambda>agree.
      and_then (tensor_mul agree (gt_scalar targets margin)) (\<lambda>hit.
      Inr (loss, sample_size,
        [''loss'' \<mapsto> PyNum (Tensor loss),
         ''ntokens'' \<mapsto> PyNum (PyInt (n0 + n1)),
         ''nsentences'' \<mapsto> PyNum (PyInt sample_size),
         ''sample_size'' \<mapsto> PyNum (PyInt sample_size),
         ''ncorrect'' \<mapsto> PyNum (PyInt (sum_item hit)),
         ''ncorrect_total'' \<mapsto> PyNum (PyInt (sum_item agree)),
         ''ncorrect_pred'' \<mapsto> PyNum (PyInt (sum_item (gt_scalar preds margin))),
         ''ncorrect_actual'' \<mapsto> PyNum (PyInt (sum_item (gt_scalar targets margin))),
         ''preds'' \<mapsto> PyList preds,
         ''targets'' \<mapsto> PyList targets])))))))))))))"

section \<open>SimilarityCriterion.reduce_metrics\<close>

text \<open>
  The metrics a call has logged, in the order of the calls, each with the arguments of
  the call.
\<close>

record meter =
  m_key :: string
  m_value :: number
  m_weight :: number
  m_round :: nat

definition log_scalar :: "string \<Rightarrow> number \<Rightarrow> number \<Rightarrow> nat \<Rightarrow> meter list \<Rightarrow> meter list" where
  \<comment> \<open>Modelled from the spec: \<open>metrics.log_scalar\<close> of the host framework, which is not
     among the sources; the spec has it report a scalar metric under a name. It records
     the call and does not raise.\<close>
  "log_scalar key v w r ms = ms @ [\<lparr>m_key = key, m_value = v, m_weight = w, m_round = r\<rparr>]"

definition dict_get :: "(string \<rightharpoonup> pyval) \<Rightarrow> string \<Rightarrow> pyval \<Rightarrow> pyval" where
  \<comment> \<open>\<open>d.get(k, default)\<close>\<close>
  "dict_get d k dflt = (case d k of None \<Rightarrow> dflt | Some v \<Rightarrow> v)"

definition has_key :: "(string \<rightharpoonup> pyval) \<Rightarrow> string \<Rightarrow> bool" where
  \<comment> \<open>\<open>k in d\<close>\<close>
  "has_key d k = (d k \<noteq> None)"

text \<open>
  \<open>sum(vs)\<close> starts from the integer 0 and adds the values from left to right; an
  addition may raise, and adding a list to a number does.
\<close>

fun py_sum_from :: "number \<Rightarrow> pyval list \<Rightarrow> 'e error + number" where
  "py_sum_from acc [] = Inr acc"
| "py_sum_from acc (PyNum n # vs) = and_then (py_add acc n) (\<lambda>acc'. py_sum_from acc' vs)"
| "py_sum_from acc (PyList xs # vs) = Inl TypeError"

definition py_sum :: "pyval list \<Rightarrow> 'e error + number" where
  "py_sum vs = py_sum_from (PyInt 0) vs"

text \<open>
  \<open>list(itertools.chain.from_iterable(vs))\<close>: the lists are concatenated in order; a
  value that is not a list cannot be iterated.
\<close>

fun chain_from_iterable :: "pyval list \<Rightarrow> 'e error + real list" where
  "chain_from_iterable [] = Inr []"
| "chain_from_iterable (PyList xs # vs) =
     and_then (chain_from_iterable vs) (\<lambda>ys. Inr (xs @ ys))"
| "chain_from_iterable (PyNum n # vs) = Inl TypeError"

definition sum_get :: "string \<Rightarrow> (string \<rightharpoonup> pyval) list \<Rightarrow> 'e error + number" where
  \<comment> \<open>\<open>sum(log.get(k, 0) for log in logging_outputs)\<close>\<close>
  "sum_get k logging_outputs =
     py_sum (map (\<lambda>log. dict_get log k (PyNum (PyInt 0))) logging_outputs)"

definition chain_get :: "string \<Rightarrow> (string \<rightharpoonup> pyval) list \<Rightarrow> 'e error + real list" where
  \<comment> \<open>\<open>list(itertools.chain.from_iterable([log.get(k, 0) for log in logging_outputs]))\<close>\<close>
  "chain_get k logging_outputs =
     chain_from_iterable (map (\<lambda>log. dict_get log k (PyNum (PyInt 0))) logging_outputs)"

definition auc_keys_present :: "(string \<rightharpoonup> pyval) list \<Rightarrow> bool" where
  \<comment> \<open>the condition of the second \<open>if\<close> of \<open>reduce_metrics\<close>\<close>
  "auc_keys_present logging_outputs =
     (case logging_outputs of
        [] \<Rightarrow> False
      | log0 # _ \<Rightarrow>
          has_key log0 ''ncorrect'' \<and> has_key log0 ''ncorrect_pred'' \<and>
          has_key log0 ''ncorrect_actual'' \<and> has_key log0 ''ncorrect_total'' \<and>
          has_key log0 ''preds'' \<and> has_key log0 ''targets'')"

text \<open>
  \<open>roc_auc_score\<close> of sklearn is a parameter. The result pairs the outcome (\<open>Inr ()\<close>
  when the method returns) with the metrics logged up to that point.
\<close>

definition try_with :: "'e + 'a \<Rightarrow> 's \<Rightarrow> ('a \<Rightarrow> ('e + 'b) \<times> 's) \<Rightarrow> ('e + 'b) \<times> 's" where
  \<comment> \<open>an exception ends the method and leaves what has been logged so far\<close>
  "try_with m s f = (case m of Inl e \<Rightarrow> (Inl e, s) | Inr x \<Rightarrow> f x)"

definition reduce_metrics ::
  "(real list \<Rightarrow> real list \<Rightarrow> 'e + fl) \<Rightarrow> (string \<rightharpoonup> pyval) list \<Rightarrow> meter list
     \<Rightarrow> ('e error + unit) \<times> meter list" where
  "reduce_metrics roc_auc_score logging_outputs ms =
     try_with (sum_get ''loss'' logging_outputs) ms (\<lambda>loss_sum.
     try_with (sum_get ''ntokens'' logging_outputs) ms (\<lambda>ntokens.
     try_with (sum_get ''nsentences'' logging_outputs) ms (\<lambda>nsentences.
     try_with (sum_get ''sample_size'' logging_outputs) ms (\<lambda>sample_size.
     try_with (and_then (py_truediv loss_sum sample_size) (\<lambda>q.
               py_truediv q (PyFloat (Fin (ln 2)))))
       ms (\<lambda>v.
     let ms1 = log_scalar ''loss'' v sample_size 3 ms in
     try_with (and_then (py_ne sample_size ntokens) (\<lambda>differ.
               if differ
               then and_then (py_truediv loss_sum ntokens) (\<lambda>q.
                    and_then (py_truediv q (PyFloat (Fin (ln 2)))) (\<lambda>v'.
                    Inr (log_scalar ''nll_loss'' v' ntokens 3 ms1)))
               else Inr ms1))
       ms1 (\<lambda>ms2.
     if auc_keys_present logging_outputs
     then
       try_with (chain_get ''preds'' logging_outputs) ms2 (\<lambda>preds.
       try_with (chain_get ''targets'' logging_outputs) ms2 (\<lambda>targets.
       try_with (if length (remdups targets) \<noteq> 2 then Inr (Fin 1)
                 else raised (roc_auc_score targets preds))
         ms2 (\<lambda>auc.
       (Inr (), log_scalar ''AUC'' (PyFloat auc) nsentences 4 ms2))))
     else (Inr (), ms2)))))))"

section \<open>SimilarityCriterion.logging_outputs_can_be_summed\<close>

definition logging_outputs_can_be_summed :: bool where
  "logging_outputs_can_be_summed = False"

section \<open>A reference for the library calls\<close>

text \<open>
  The formulas of the documentation of torch and sklearn, over the reals, with logits as
  lists of rows. The theorems below hold for every library; this instance serves to run
  the two methods on concrete inputs.
\<close>

datatype lib_exn = ShapeError | ValueError | LookupError

definition cos_row :: "real list \<Rightarrow> real list \<Rightarrow> real option" where
  \<comment> \<open>\<open>x \<cdot> y / (max(\<parallel>x\<parallel>, \<epsilon>) * max(\<parallel>y\<parallel>, \<epsilon>))\<close> with \<open>\<epsilon> = 1e-8\<close>\<close>
  "cos_row x y =
     (case broadcast2 Pair x y of
        None \<Rightarrow> None
      | Some ps \<Rightarrow>
          Some (sum_list (map (\<lambda>(a, b). a * b) ps) /
                (max (sqrt (sum_list (map (\<lambda>(a, b). a * a) ps))) (1 / 100000000) *
                 max (sqrt (sum_list (map (\<lambda>(a, b). b * b) ps))) (1 / 100000000))))"

definition ref_cosine_similarity :: "real list list \<Rightarrow> real list list \<Rightarrow> lib_exn + real list" where
  "ref_cosine_similarity x1 x2 =
     (case broadcast2 cos_row x1 x2 of
        None \<Rightarrow> Inl ShapeError
      | Some rs \<Rightarrow> (case those rs of None \<Rightarrow> Inl ShapeError | Some cs \<Rightarrow> Inr cs))"

definition ref_cosine_embedding_loss ::
  "real list list \<Rightarrow> real list list \<Rightarrow> real list \<Rightarrow> real \<Rightarrow> reduction \<Rightarrow> lib_exn + fl" where
  \<comment> \<open>per row \<open>1 - cos\<close> where the target is 1 and \<open>max(0, cos - margin)\<close> where it is -1\<close>
  "ref_cosine_embedding_loss x1 x2 tgt margin red =
     (case ref_cosine_similarity x1 x2 of
        Inl e \<Rightarrow> Inl e
      | Inr cs \<Rightarrow>
         (case broadcast2
                 (\<lambda>t c. (if t = 1 then 1 - c else 0) + (if t = - 1 then max 0 (c - margin) else 0))
                 tgt cs of
            None \<Rightarrow> Inl ShapeError
          | Some ls \<Rightarrow>
              Inr (case red of
                     Sum \<Rightarrow> Fin (sum_list ls)
                   | Mean \<Rightarrow> if ls = [] then NaN else Fin (sum_list ls / real (length ls)))))"

definition torch_ref :: "(real list list, lib_exn) torch" where
  "torch_ref =
     \<lparr>cosine_embedding_loss = ref_cosine_embedding_loss,
      cosine_similarity = ref_cosine_similarity\<rparr>"

text \<open>
  \<open>roc_auc_score\<close> on one-dimensional scores. It raises on inputs of different or of zero
  length, on labels that are not whole numbers and on more than two classes; with one
  class it is not a number; with two classes, the greater label being the positive one,
  it is the share of (positive, negative) pairs that the scores order correctly, a tie
  counting one half.
\<close>

definition ref_roc_auc_score :: "real list \<Rightarrow> real list \<Rightarrow> lib_exn + fl" where
  "ref_roc_auc_score y_true y_score =
     (if length y_true \<noteq> length y_score \<or> y_true = [] then Inl ValueError
      else if \<not> list_all (\<lambda>t. t = of_int \<lfloor>t\<rfloor>) y_true then Inl ValueError
      else if 2 < length (remdups y_true) then Inl ValueError
      else if length (remdups y_true) = 1 then Inr NaN
      else
        let pos_label = fold max y_true (hd y_true);
            pos = map snd (filter (\<lambda>(t, s). t = pos_label) (zip y_true y_score));
            neg = map snd (filter (\<lambda>(t, s). t \<noteq> pos_label) (zip y_true y_score))
        in Inr (Fin (sum_list (map (\<lambda>p. sum_list (map (\<lambda>n.
                   if n < p then 1 else if n = p then 1 / 2 else 0) neg)) pos)
                / (real (length pos) * real (length neg)))))"

section \<open>Example objects\<close>

text \<open>
  A model whose encoder is the identity on a batch of feature rows, with one head named
  \<open>similarity\<close>, and whose targets are the sample's \<open>target\<close> entry.
\<close>

definition ex_model :: "(real list list, real list list, unit, unit, lib_exn) model" where
  "ex_model =
     \<lparr>classification_heads = Some [''similarity'' \<mapsto> ()],
      call = (\<lambda>inp name. Inr (inp, ())),
      get_targets = (\<lambda>smp outs. case target smp of None \<Rightarrow> Inl LookupError | Some t \<Rightarrow> Inr t)\<rparr>"

definition ex_self :: criterion where
  "ex_self = \<lparr>classification_head_name = ''similarity''\<rparr>"

definition ex_cfg :: configs where
  "ex_cfg = \<lparr>cosine_embedding_loss_margin = 1 / 2\<rparr>"

definition ex_sample :: "real list list sample" where
  "ex_sample =
     \<lparr>net_input0 = Some [[1, 0], [1, 0]],
      net_input1 = Some [[1, 0], [1, 0]],
      ntokens0 = Some 5,
      ntokens1 = Some 7,
      target = Some (Dim [Scalar 1, Scalar (- 1)])\<rparr>"

definition ex_log :: "string \<rightharpoonup> pyval" where
  "ex_log =
     [''loss'' \<mapsto> PyNum (Tensor (Fin (1 / 2))),
      ''ntokens'' \<mapsto> PyNum (PyInt 12),
      ''nsentences'' \<mapsto> PyNum (PyInt 2),
      ''sample_size'' \<mapsto> PyNum (PyInt 2),
      ''ncorrect'' \<mapsto> PyNum (PyInt 1),
      ''ncorrect_total'' \<mapsto> PyNum (PyInt 1),
      ''ncorrect_pred'' \<mapsto> PyNum (PyInt 2),
      ''ncorrect_actual'' \<mapsto> PyNum (PyInt 1),
      ''preds'' \<mapsto> PyList [1, 1],
      ''targets'' \<mapsto> PyList [1, - 1]]"

text \<open>The same model without the attribute \<open>classification_heads\<close>.\<close>

definition ex_headless :: "(real list list, real list list, unit, unit, lib_exn) model" where
  "ex_headless = ex_model\<lparr>classification_heads := None\<rparr>"

text \<open>A batch whose targets all belong to one class.\<close>

definition ex_sample_one_class :: "real list list sample" where
  "ex_sample_one_class = ex_sample\<lparr>target := Some (Dim [Scalar 1, Scalar 1])\<rparr>"

definition ex_log_one_class :: "string \<rightharpoonup> pyval" where
  "ex_log_one_class =
     [''loss'' \<mapsto> PyNum (Tensor (Fin 0)),
      ''ntokens'' \<mapsto> PyNum (PyInt 12),
      ''nsentences'' \<mapsto> PyNum (PyInt 2),
      ''sample_size'' \<mapsto> PyNum (PyInt 2),
      ''ncorrect'' \<mapsto> PyNum (PyInt 2),
      ''ncorrect_total'' \<mapsto> PyNum (PyInt 2),
      ''ncorrect_pred'' \<mapsto> PyNum (PyInt 2),
      ''ncorrect_actual'' \<mapsto> PyNum (PyInt 2),
      ''preds'' \<mapsto> PyList [1, 1],
      ''targets'' \<mapsto> PyList [1, 1]]"

text \<open>A batch without sentences.\<close>

definition ex_sample_empty :: "real list list sample" where
  "ex_sample_empty =
     \<lparr>net_input0 = Some [],
      net_input1 = Some [],
      ntokens0 = Some 0,
      ntokens1 = Some 0,
      target = Some (Dim [])\<rparr>"

definition ex_log_empty :: "string \<rightharpoonup> pyval" where
  "ex_log_empty =
     [''loss'' \<mapsto> PyNum (Tensor (Fin 0)),
      ''ntokens'' \<mapsto> PyNum (PyInt 0),
      ''nsentences'' \<mapsto> PyNum (PyInt 0),
      ''sample_size'' \<mapsto> PyNum (PyInt 0),
      ''ncorrect'' \<mapsto> PyNum (PyInt 0),
      ''ncorrect_total'' \<mapsto> PyNum (PyInt 0),
      ''ncorrect_pred'' \<mapsto> PyNum (PyInt 0),
      ''ncorrect_actual'' \<mapsto> PyNum (PyInt 0),
      ''preds'' \<mapsto> PyList [],
      ''targets'' \<mapsto> PyList []]"

text \<open>A batch of three sentence pairs for which the model supplies a single target.\<close>

definition ex_sample_single_target :: "real list list sample" where
  "ex_sample_single_target =
     \<lparr>net_input0 = Some [[1, 0], [1, 0], [1, 0]],
      net_input1 = Some [[1, 0], [1, 0], [1, 0]],
      ntokens0 = Some 6,
      ntokens1 = Some 6,
      target = Some (Dim [Scalar 1])\<rparr>"

definition ex_log_single_target :: "string \<rightharpoonup> pyval" where
  "ex_log_single_target =
     [''loss'' \<mapsto> PyNum (Tensor (Fin 0)),
      ''ntokens'' \<mapsto> PyNum (PyInt 12),
      ''nsentences'' \<mapsto> PyNum (PyInt 1),
      ''sample_size'' \<mapsto> PyNum (PyInt 1),
      ''ncorrect'' \<mapsto> PyNum (PyInt 3),
      ''ncorrect_total'' \<mapsto> PyNum (PyInt 3),
      ''ncorrect_pred'' \<mapsto> PyNum (PyInt 3),
      ''ncorrect_actual'' \<mapsto> PyNum (PyInt 1),
      ''preds'' \<mapsto> PyList [1, 1, 1],
      ''targets'' \<mapsto> PyList [1]]"

text \<open>A logging output like that of the example run, from a worker without predictions.\<close>

definition ex_log_no_preds :: "string \<rightharpoonup> pyval" where
  "ex_log_no_preds = ex_log(''preds'' := None)"

text \<open>The batch of the example run with a token count beyond 64 bits.\<close>

definition ex_sample_huge :: "real list list sample" where
  "ex_sample_huge = ex_sample\<lparr>ntokens0 := Some (2 ^ 64)\<rparr>"

definition ex_log_huge :: "string \<rightharpoonup> pyval" where
  "ex_log_huge =
     [''loss'' \<mapsto> PyNum (Tensor (Fin (1 / 2))),
      ''ntokens'' \<mapsto> PyNum (PyInt (2 ^ 64 + 7)),
      ''nsentences'' \<mapsto> PyNum (PyInt 2),
      ''sample_size'' \<mapsto> PyNum (PyInt 2),
      ''ncorrect'' \<mapsto> PyNum (PyInt 1),
      ''ncorrect_total'' \<mapsto> PyNum (PyInt 1),
      ''ncorrect_pred'' \<mapsto> PyNum (PyInt 2),
      ''ncorrect_actual'' \<mapsto> PyNum (PyInt 1),
      ''preds'' \<mapsto> PyList [1, 1],
      ''targets'' \<mapsto> PyList [1, - 1]]"

section \<open>Per-worker entries and their sums\<close>

text \<open>
  What one worker's logging output holds under a key, read the way \<open>log.get(k, 0)\<close> is
  used: the loss as a floating-point value, a count as an integer, a vector as a list.
\<close>

definition loss_entry :: "(string \<rightharpoonup> pyval) \<Rightarrow> fl" where
  "loss_entry lg = (case lg ''loss'' of Some (PyNum x) \<Rightarrow> to_fl x | _ \<Rightarrow> Fin 0)"

definition int_entry :: "string \<Rightarrow> (string \<rightharpoonup> pyval) \<Rightarrow> int" where
  "int_entry k lg = (case lg k of Some (PyNum (PyInt i)) \<Rightarrow> i | _ \<Rightarrow> 0)"

definition list_entry :: "string \<Rightarrow> (string \<rightharpoonup> pyval) \<Rightarrow> real list" where
  "list_entry k lg = (case lg k of Some (PyList xs) \<Rightarrow> xs | _ \<Rightarrow> [])"

text \<open>The sum of floating-point values.\<close>

primrec fl_sum :: "fl list \<Rightarrow> fl" where
  "fl_sum [] = Fin 0"
| "fl_sum (x # xs) = fl_add x (fl_sum xs)"


section \<open>Properties of forward\<close>

lemmas forward_defs = forward_def and_then_def raised_def subscript_def Let_def

lemmas ex_defs =
  has_head_def ex_model_def ex_self_def ex_cfg_def torch_ref_def
  ref_cosine_embedding_loss_def ref_cosine_similarity_def cos_row_def broadcast2_def
  numel_def tensor_eq_def tensor_mul_def elementwise_def gt_scalar_def sum_item_def

text \<open>What a successful call has computed on the way.\<close>

lemma forward_Inr_cases:
  fixes lib :: "('l, 'e) torch"
  assumes "forward lib cfg self mdl smp = Inr (loss, n, lg)"
  shows "\<exists>inp0 inp1 logits0 x0 logits1 x1 t n0 n1 preds agree hit.
     has_head mdl self \<and>
     net_input0 smp = Some inp0 \<and> net_input1 smp = Some inp1 \<and>
     call mdl inp0 (classification_head_name self) = Inr (logits0, x0) \<and>
     call mdl inp1 (classification_head_name self) = Inr (logits1, x1) \<and>
     get_targets mdl smp [logits0] = Inr t \<and>
     cosine_embedding_loss lib logits0 logits1 (view_flat t)
       (cosine_embedding_loss_margin cfg) Sum = Inr loss \<and>
     ntokens0 smp = Some n0 \<and> ntokens1 smp = Some n1 \<and>
     cosine_similarity lib logits0 logits1 = Inr preds \<and>
     tensor_eq (gt_scalar preds (cosine_embedding_loss_margin cfg))
       (gt_scalar (view_flat t) (cosine_embedding_loss_margin cfg))
       = (Inr agree :: 'e error + bool list) \<and>
     tensor_mul agree (gt_scalar (view_flat t) (cosine_embedding_loss_margin cfg))
       = (Inr hit :: 'e error + bool list) \<and>
     n = numel (view_flat t) \<and>
     lg = [''loss'' \<mapsto> PyNum (Tensor loss),
           ''ntokens'' \<mapsto> PyNum (PyInt (n0 + n1)),
           ''nsentences'' \<mapsto> PyNum (PyInt n),
           ''sample_size'' \<mapsto> PyNum (PyInt n),
           ''ncorrect'' \<mapsto> PyNum (PyInt (sum_item hit)),
           ''ncorrect_total'' \<mapsto> PyNum (PyInt (sum_item agree)),
           ''ncorrect_pred'' \<mapsto>
             PyNum (PyInt (sum_item (gt_scalar preds (cosine_embedding_loss_margin cfg)))),
           ''ncorrect_actual'' \<mapsto>
             PyNum (PyInt (sum_item (gt_scalar (view_flat t) (cosine_embedding_loss_margin cfg)))),
           ''preds'' \<mapsto> PyList preds,
           ''targets'' \<mapsto> PyList (view_flat t)]"
  using assms unfolding forward_defs
  by (auto split: if_splits sum.splits option.splits prod.splits)

text \<open>The example runs.\<close>

lemma ex_forward:
  "forward torch_ref ex_cfg ex_self ex_model ex_sample = Inr (Fin (1 / 2), 2, ex_log)"
  by (simp add: forward_defs ex_defs ex_sample_def ex_log_def)

lemma ex_forward_one_class:
  "forward torch_ref ex_cfg ex_self ex_model ex_sample_one_class = Inr (Fin 0, 2, ex_log_one_class)"
  by (simp add: forward_defs ex_defs ex_sample_def ex_sample_one_class_def ex_log_one_class_def)

lemma ex_forward_empty:
  "forward torch_ref ex_cfg ex_self ex_model ex_sample_empty = Inr (Fin 0, 0, ex_log_empty)"
  by (simp add: forward_defs ex_defs ex_sample_empty_def ex_log_empty_def)

lemma ex_forward_single_target:
  "forward torch_ref ex_cfg ex_self ex_model ex_sample_single_target
     = Inr (Fin 0, 1, ex_log_single_target)"
  by (simp add: forward_defs ex_defs ex_sample_single_target_def ex_log_single_target_def)

lemma ex_forward_huge:
  "forward torch_ref ex_cfg ex_self ex_model ex_sample_huge = Inr (Fin (1 / 2), 2, ex_log_huge)"
  by (simp add: forward_defs ex_defs ex_sample_def ex_sample_huge_def ex_log_huge_def)

text \<open>
  Claim C1. The loss that a successful call returns is the result of
  \<open>F.cosine_embedding_loss\<close> on the logits the model computes for \<open>net_input0\<close> and for
  \<open>net_input1\<close> and on the flattened targets, with the configured margin and the
  reduction \<open>sum\<close>; the same value is stored under \<open>loss\<close> in the logging output.
\<close>

theorem forward_loss_is_cosine_embedding_loss:
  fixes lib :: "('l, 'e) torch"
  assumes "forward lib cfg self mdl smp = Inr (loss, n, lg)"
  shows "\<exists>inp0 inp1 logits0 x0 logits1 x1 t.
     net_input0 smp = Some inp0 \<and>
     call mdl inp0 (classification_head_name self) = Inr (logits0, x0) \<and>
     net_input1 smp = Some inp1 \<and>
     call mdl inp1 (classification_head_name self) = Inr (logits1, x1) \<and>
     get_targets mdl smp [logits0] = Inr t \<and>
     cosine_embedding_loss lib logits0 logits1 (view_flat t)
       (cosine_embedding_loss_margin cfg) Sum = Inr loss \<and>
     lg ''loss'' = Some (PyNum (Tensor loss))"
proof -
  from forward_Inr_cases [OF assms]
  obtain inp0 inp1 logits0 x0 logits1 x1 t n0 n1 preds agree hit where
    run: "net_input0 smp = Some inp0" "net_input1 smp = Some inp1"
      "call mdl inp0 (classification_head_name self) = Inr (logits0, x0)"
      "call mdl inp1 (classification_head_name self) = Inr (logits1, x1)"
      "get_targets mdl smp [logits0] = Inr t"
      "cosine_embedding_loss lib logits0 logits1 (view_flat t)
         (cosine_embedding_loss_margin cfg) Sum = Inr loss"
    and lg: "lg = [''loss'' \<mapsto> PyNum (Tensor loss),
           ''ntokens'' \<mapsto> PyNum (PyInt (n0 + n1)),
           ''nsentences'' \<mapsto> PyNum (PyInt n),
           ''sample_size'' \<mapsto> PyNum (PyInt n),
           ''ncorrect'' \<mapsto> PyNum (PyInt (sum_item hit)),
           ''ncorrect_total'' \<mapsto> PyNum (PyInt (sum_item agree)),
           ''ncorrect_pred'' \<mapsto>
             PyNum (PyInt (sum_item (gt_scalar preds (cosine_embedding_loss_margin cfg)))),
           ''ncorrect_actual'' \<mapsto>
             PyNum (PyInt (sum_item (gt_scalar (view_flat t) (cosine_embedding_loss_margin cfg)))),
           ''preds'' \<mapsto> PyList preds,
           ''targets'' \<mapsto> PyList (view_flat t)]"
    by blast
  from lg have "lg ''loss'' = Some (PyNum (Tensor loss))" by simp
  with run show ?thesis by blast
qed

theorem forward_loss_is_cosine_embedding_loss_witness:
  "forward torch_ref ex_cfg ex_self ex_model ex_sample = Inr (Fin (1 / 2), 2, ex_log) \<and>
   ref_cosine_embedding_loss [[1, 0], [1, 0]] [[1, 0], [1, 0]] [1, - 1] (1 / 2) Sum
     = Inr (Fin (1 / 2)) \<and>
   ex_log ''loss'' = Some (PyNum (Tensor (Fin (1 / 2))))"
proof -
  have "ref_cosine_embedding_loss [[1, 0], [1, 0]] [[1, 0], [1, 0]] [1, - 1] (1 / 2) Sum
          = Inr (Fin (1 / 2)) \<and>
        ex_log ''loss'' = Some (PyNum (Tensor (Fin (1 / 2))))"
    using forward_loss_is_cosine_embedding_loss [OF ex_forward]
    by (auto simp: ex_model_def ex_sample_def ex_cfg_def ex_self_def torch_ref_def)
  with ex_forward show ?thesis by blast
qed

text \<open>
  Claim C2. The call stops with the assertion's error exactly when the model has no
  attribute \<open>classification_heads\<close> or its heads lack the criterion's head name, whatever
  the library, the configuration and the sample are. The criterion makes no other check:
  every other error is a missing key of the sample, a shape that does not broadcast, or an
  exception of the model or the library, and none of them is caught.
\<close>

theorem forward_assertion:
  fixes lib :: "('l, 'e) torch"
  shows "(forward lib cfg self mdl smp = Inl (AssertionError
            ''model must provide sentence classification head for --criterion=similarity'')
          \<longleftrightarrow> (classification_heads mdl = None \<or>
               (\<exists>heads. classification_heads mdl = Some heads \<and>
                        classification_head_name self \<notin> dom heads))) \<and>
         (\<forall>msg. forward lib cfg self mdl smp = Inl (AssertionError msg) \<longrightarrow>
            msg = ''model must provide sentence classification head for --criterion=similarity'') \<and>
         (\<forall>e. forward lib cfg self mdl smp = Inl e \<longrightarrow>
            (\<exists>msg. e = AssertionError msg) \<or> (\<exists>k. e = KeyError k) \<or> e = RuntimeError \<or>
            (\<exists>x. e = Raised x))"
  unfolding forward_defs has_head_def tensor_eq_def tensor_mul_def elementwise_def
  by (auto split: if_splits sum.splits option.splits prod.splits)

theorem forward_assertion_witness:
  "forward torch_ref ex_cfg ex_self ex_headless ex_sample = Inl (AssertionError
     ''model must provide sentence classification head for --criterion=similarity'') \<and>
   classification_heads ex_headless = None \<and>
   forward torch_ref ex_cfg ex_self ex_model ex_sample \<noteq> Inl (AssertionError
     ''model must provide sentence classification head for --criterion=similarity'') \<and>
   classification_heads ex_model = Some [''similarity'' \<mapsto> ()] \<and>
   classification_head_name ex_self \<in> dom [''similarity'' \<mapsto> ()]"
proof -
  have h: "classification_heads ex_headless = None"
    by (simp add: ex_headless_def)
  have m: "classification_heads ex_model = Some [''similarity'' \<mapsto> ()]"
    by (simp add: ex_model_def)
  have n: "classification_head_name ex_self \<in> dom [''similarity'' \<mapsto> ()]"
    by (simp add: ex_self_def)
  have a: "forward torch_ref ex_cfg ex_self ex_headless ex_sample = Inl (AssertionError
     ''model must provide sentence classification head for --criterion=similarity'')"
    using forward_assertion [of torch_ref ex_cfg ex_self ex_headless ex_sample, THEN conjunct1] h
    by (rule_tac iffD2) auto
  have b: "forward torch_ref ex_cfg ex_self ex_model ex_sample \<noteq> Inl (AssertionError
     ''model must provide sentence classification head for --criterion=similarity'')"
  proof
    assume "forward torch_ref ex_cfg ex_self ex_model ex_sample = Inl (AssertionError
     ''model must provide sentence classification head for --criterion=similarity'')"
    with forward_assertion [of torch_ref ex_cfg ex_self ex_model ex_sample, THEN conjunct1]
    have "classification_heads ex_model = None \<or>
               (\<exists>heads. classification_heads ex_model = Some heads \<and>
                        classification_head_name ex_self \<notin> dom heads)"
      by (rule iffD1)
    with m n show False by auto
  qed
  from a h b m n show ?thesis by (intro conjI)
qed

text \<open>
  Counting the \<open>True\<close> entries of boolean tensors.
\<close>

lemma sum_item_nonneg: "0 \<le> sum_item t"
  by (simp add: sum_item_def)

lemma sum_item_le_length: "sum_item t \<le> int (length t)"
  by (simp add: sum_item_def)

lemma broadcast2_same_length:
  "length xs = length ys \<Longrightarrow> broadcast2 f xs ys = Some (map (\<lambda>(x, y). f x y) (zip xs ys))"
  by (simp add: broadcast2_def)

lemma hits_le:
  assumes "length xs = length ys"
  shows "sum_item (map (\<lambda>(a, b). a \<and> b) (zip (map (\<lambda>(x, y). x = y) (zip xs ys)) ys))
           \<le> min (sum_item xs) (sum_item ys)"
  using assms by (induction xs ys rule: list_induct2) (auto simp: sum_item_def)

text \<open>
  Claim C5. A successful call returns the loss, the sample size and the logging output;
  the sample size is the number of entries of the flattened target tensor, and the logging
  output holds that number under \<open>nsentences\<close> and under \<open>sample_size\<close>.
\<close>

theorem forward_sample_size:
  fixes lib :: "('l, 'e) torch"
  assumes "forward lib cfg self mdl smp = Inr (loss, n, lg)"
  shows "\<exists>inp0 logits0 x0 t.
     net_input0 smp = Some inp0 \<and>
     call mdl inp0 (classification_head_name self) = Inr (logits0, x0) \<and>
     get_targets mdl smp [logits0] = Inr t \<and>
     n = int (length (view_flat t)) \<and>
     lg ''nsentences'' = Some (PyNum (PyInt n)) \<and>
     lg ''sample_size'' = Some (PyNum (PyInt n))"
  using forward_Inr_cases [OF assms] by (fastforce simp: numel_def)

theorem forward_sample_size_witness:
  "forward torch_ref ex_cfg ex_self ex_model ex_sample = Inr (Fin (1 / 2), 2, ex_log) \<and>
   (2::int) = int (length (view_flat (Dim [Scalar 1, Scalar (- 1)]))) \<and>
   ex_log ''nsentences'' = Some (PyNum (PyInt 2)) \<and>
   ex_log ''sample_size'' = Some (PyNum (PyInt 2))"
proof -
  have "ex_log ''nsentences'' = Some (PyNum (PyInt 2)) \<and>
        ex_log ''sample_size'' = Some (PyNum (PyInt 2))"
    using forward_sample_size [OF ex_forward] by blast
  with ex_forward show ?thesis by simp
qed

text \<open>
  Claim C6, as stated, has the logging outputs summable across workers before
  \<open>reduce_metrics\<close>; the criterion answers that they are not.
\<close>

theorem logging_outputs_summed_counterexample:
  "\<not> logging_outputs_can_be_summed"
  by (simp add: logging_outputs_can_be_summed_def)

text \<open>
  Claim C6, amended. The logging output of a successful call has ten entries: eight
  scalars and the two lists \<open>preds\<close> and \<open>targets\<close>; and the criterion declares that
  logging outputs are not to be summed across workers before \<open>reduce_metrics\<close>.
\<close>

theorem forward_logging_output_shape:
  fixes lib :: "('l, 'e) torch"
  assumes "forward lib cfg self mdl smp = Inr (loss, n, lg)"
  shows "dom lg = {''loss'', ''ntokens'', ''nsentences'', ''sample_size'', ''ncorrect'',
                   ''ncorrect_total'', ''ncorrect_pred'', ''ncorrect_actual'', ''preds'',
                   ''targets''} \<and>
         (\<forall>k \<in> {''loss'', ''ntokens'', ''nsentences'', ''sample_size'', ''ncorrect'',
                 ''ncorrect_total'', ''ncorrect_pred'', ''ncorrect_actual''}.
            \<exists>v. lg k = Some (PyNum v)) \<and>
         (\<forall>k \<in> {''preds'', ''targets''}. \<exists>xs. lg k = Some (PyList xs)) \<and>
         \<not> logging_outputs_can_be_summed"
proof -
  from forward_Inr_cases [OF assms]
  obtain t n0 n1 preds agree hit where
    lg: "lg = [''loss'' \<mapsto> PyNum (Tensor loss),
           ''ntokens'' \<mapsto> PyNum (PyInt (n0 + n1)),
           ''nsentences'' \<mapsto> PyNum (PyInt n),
           ''sample_size'' \<mapsto> PyNum (PyInt n),
           ''ncorrect'' \<mapsto> PyNum (PyInt (sum_item hit)),
           ''ncorrect_total'' \<mapsto> PyNum (PyInt (sum_item agree)),
           ''ncorrect_pred'' \<mapsto>
             PyNum (PyInt (sum_item (gt_scalar preds (cosine_embedding_loss_margin cfg)))),
           ''ncorrect_actual'' \<mapsto>
             PyNum (PyInt (sum_item (gt_scalar (view_flat t) (cosine_embedding_loss_margin cfg)))),
           ''preds'' \<mapsto> PyList preds,
           ''targets'' \<mapsto> PyList (view_flat t)]"
    by blast
  have "dom lg = {''loss'', ''ntokens'', ''nsentences'', ''sample_size'', ''ncorrect'',
                   ''ncorrect_total'', ''ncorrect_pred'', ''ncorrect_actual'', ''preds'',
                   ''targets''}"
    unfolding lg by auto
  moreover have "\<forall>k \<in> {''loss'', ''ntokens'', ''nsentences'', ''sample_size'', ''ncorrect'',
                 ''ncorrect_total'', ''ncorrect_pred'', ''ncorrect_actual''}.
            \<exists>v. lg k = Some (PyNum v)"
    unfolding lg by simp
  moreover have "\<forall>k \<in> {''preds'', ''targets''}. \<exists>xs. lg k = Some (PyList xs)"
    unfolding lg by simp
  ultimately show ?thesis
    by (simp add: logging_outputs_can_be_summed_def)
qed

theorem forward_logging_output_shape_witness:
  "forward torch_ref ex_cfg ex_self ex_model ex_sample = Inr (Fin (1 / 2), 2, ex_log) \<and>
   dom ex_log = {''loss'', ''ntokens'', ''nsentences'', ''sample_size'', ''ncorrect'',
                 ''ncorrect_total'', ''ncorrect_pred'', ''ncorrect_actual'', ''preds'',
                 ''targets''} \<and>
   ex_log ''loss'' = Some (PyNum (Tensor (Fin (1 / 2)))) \<and>
   ex_log ''preds'' = Some (PyList [1, 1]) \<and>
   \<not> logging_outputs_can_be_summed"
proof -
  note shape = forward_logging_output_shape [OF ex_forward]
  have "ex_log ''loss'' = Some (PyNum (Tensor (Fin (1 / 2))))"
    and "ex_log ''preds'' = Some (PyList [1, 1])"
    by (simp_all add: ex_log_def)
  with ex_forward shape [THEN conjunct1] shape [THEN conjunct2, THEN conjunct2, THEN conjunct2]
  show ?thesis by (intro conjI)
qed

text \<open>
  Claim C10, as stated, fails where the model supplies one target for a batch of three
  pairs: the comparisons broadcast the single target, so three predictions are counted
  against one sentence.
\<close>

theorem forward_logging_invariants_counterexample:
  "forward torch_ref ex_cfg ex_self ex_model ex_sample_single_target
     = Inr (Fin 0, 1, ex_log_single_target) \<and>
   ex_log_single_target ''nsentences'' = Some (PyNum (PyInt 1)) \<and>
   ex_log_single_target ''ncorrect'' = Some (PyNum (PyInt 3)) \<and>
   ex_log_single_target ''ncorrect_pred'' = Some (PyNum (PyInt 3)) \<and>
   ex_log_single_target ''ncorrect_actual'' = Some (PyNum (PyInt 1)) \<and>
   ex_log_single_target ''ncorrect_total'' = Some (PyNum (PyInt 3)) \<and>
   ex_log_single_target ''preds'' = Some (PyList [1, 1, 1]) \<and>
   \<not> (3::int) \<le> min 3 1 \<and> \<not> (3::int) \<le> 1 \<and> int (length [1, 1, 1 :: real]) \<noteq> 1"
  using ex_forward_single_target by (simp add: ex_log_single_target_def)

text \<open>
  Claim C10, amended. In the logging output of a successful call \<open>ncorrect\<close> is not
  negative and \<open>targets\<close> has exactly \<open>nsentences\<close> entries. When there are as many
  predictions as targets, moreover \<open>ncorrect\<close> is at most \<open>ncorrect_pred\<close> and at most
  \<open>ncorrect_actual\<close>, \<open>ncorrect_total\<close> is at most \<open>nsentences\<close>, and \<open>preds\<close> has exactly
  \<open>nsentences\<close> entries.
\<close>

theorem forward_logging_invariants:
  fixes lib :: "('l, 'e) torch"
  assumes "forward lib cfg self mdl smp = Inr (loss, n, lg)"
  shows "\<exists>c ct cp ca ps ts.
      lg ''ncorrect'' = Some (PyNum (PyInt c)) \<and>
      lg ''ncorrect_total'' = Some (PyNum (PyInt ct)) \<and>
      lg ''ncorrect_pred'' = Some (PyNum (PyInt cp)) \<and>
      lg ''ncorrect_actual'' = Some (PyNum (PyInt ca)) \<and>
      lg ''nsentences'' = Some (PyNum (PyInt n)) \<and>
      lg ''preds'' = Some (PyList ps) \<and> lg ''targets'' = Some (PyList ts) \<and>
      0 \<le> c \<and> int (length ts) = n \<and>
      (length ps = length ts \<longrightarrow> c \<le> min cp ca \<and> ct \<le> n \<and> int (length ps) = n)"
proof -
  let ?m = "cosine_embedding_loss_margin cfg"
  from forward_Inr_cases [OF assms]
  obtain t n0 n1 preds agree hit where
    agree: "tensor_eq (gt_scalar preds ?m) (gt_scalar (view_flat t) ?m)
              = (Inr agree :: 'e error + bool list)"
    and hit: "tensor_mul agree (gt_scalar (view_flat t) ?m) = (Inr hit :: 'e error + bool list)"
    and n: "n = numel (view_flat t)"
    and lg: "lg = [''loss'' \<mapsto> PyNum (Tensor loss),
           ''ntokens'' \<mapsto> PyNum (PyInt (n0 + n1)),
           ''nsentences'' \<mapsto> PyNum (PyInt n),
           ''sample_size'' \<mapsto> PyNum (PyInt n),
           ''ncorrect'' \<mapsto> PyNum (PyInt (sum_item hit)),
           ''ncorrect_total'' \<mapsto> PyNum (PyInt (sum_item agree)),
           ''ncorrect_pred'' \<mapsto> PyNum (PyInt (sum_item (gt_scalar preds ?m))),
           ''ncorrect_actual'' \<mapsto> PyNum (PyInt (sum_item (gt_scalar (view_flat t) ?m))),
           ''preds'' \<mapsto> PyList preds,
           ''targets'' \<mapsto> PyList (view_flat t)]"
    by blast
  have same: "sum_item hit \<le> min (sum_item (gt_scalar preds ?m)) (sum_item (gt_scalar (view_flat t) ?m))
              \<and> sum_item agree \<le> n \<and> int (length preds) = n"
    if len: "length preds = length (view_flat t)"
  proof -
    have l2: "length (gt_scalar preds ?m) = length (gt_scalar (view_flat t) ?m)"
      using len by (simp add: gt_scalar_def)
    have a: "agree = map (\<lambda>(x, y). x = y) (zip (gt_scalar preds ?m) (gt_scalar (view_flat t) ?m))"
      using agree broadcast2_same_length [OF l2, of "\<lambda>x y. x = y"]
      by (simp add: tensor_eq_def elementwise_def)
    have l3: "length agree = length (gt_scalar (view_flat t) ?m)"
      using l2 by (simp add: a)
    have h: "hit = map (\<lambda>(x, y). x \<and> y) (zip agree (gt_scalar (view_flat t) ?m))"
      using hit broadcast2_same_length [OF l3, of "\<lambda>x y. x \<and> y"]
      by (simp add: tensor_mul_def elementwise_def)
    have "sum_item hit \<le> min (sum_item (gt_scalar preds ?m)) (sum_item (gt_scalar (view_flat t) ?m))"
      unfolding h a by (rule hits_le [OF l2])
    moreover have "sum_item agree \<le> n"
      using sum_item_le_length [of agree] l3 by (simp add: n numel_def gt_scalar_def)
    moreover have "int (length preds) = n"
      using len by (simp add: n numel_def)
    ultimately show ?thesis by simp
  qed
  have "lg ''ncorrect'' = Some (PyNum (PyInt (sum_item hit)))"
    "lg ''ncorrect_total'' = Some (PyNum (PyInt (sum_item agree)))"
    "lg ''ncorrect_pred'' = Some (PyNum (PyInt (sum_item (gt_scalar preds ?m))))"
    "lg ''ncorrect_actual'' = Some (PyNum (PyInt (sum_item (gt_scalar (view_flat t) ?m))))"
    "lg ''nsentences'' = Some (PyNum (PyInt n))"
    "lg ''preds'' = Some (PyList preds)" "lg ''targets'' = Some (PyList (view_flat t))"
    unfolding lg by simp_all
  moreover have "0 \<le> sum_item hit" by (rule sum_item_nonneg)
  moreover have "int (length (view_flat t)) = n" by (simp add: n numel_def)
  ultimately show ?thesis using same by blast
qed

theorem forward_logging_invariants_witness:
  "forward torch_ref ex_cfg ex_self ex_model ex_sample = Inr (Fin (1 / 2), 2, ex_log) \<and>
   length [1, 1 :: real] = length [1, - 1 :: real] \<and>
   (0::int) \<le> 1 \<and> (1::int) \<le> min 2 1 \<and> (1::int) \<le> 2 \<and> int (length [1, 1 :: real]) = 2"
proof -
  from forward_logging_invariants [OF ex_forward]
  obtain c ct cp ca ps ts where
    "ex_log ''ncorrect'' = Some (PyNum (PyInt c))"
    "ex_log ''ncorrect_total'' = Some (PyNum (PyInt ct))"
    "ex_log ''ncorrect_pred'' = Some (PyNum (PyInt cp))"
    "ex_log ''ncorrect_actual'' = Some (PyNum (PyInt ca))"
    "ex_log ''preds'' = Some (PyList ps)" "ex_log ''targets'' = Some (PyList ts)"
    "0 \<le> c" "int (length ts) = 2"
    "length ps = length ts \<longrightarrow> c \<le> min cp ca \<and> ct \<le> 2 \<and> int (length ps) = 2"
    by blast
  then have "length [1, 1 :: real] = length [1, - 1 :: real] \<and>
   (0::int) \<le> 1 \<and> (1::int) \<le> min 2 1 \<and> (1::int) \<le> 2 \<and> int (length [1, 1 :: real]) = 2"
    by (auto simp: ex_log_def)
  with ex_forward show ?thesis by blast
qed

section \<open>Properties of reduce_metrics\<close>

text \<open>
  Floating-point sums, Python's \<open>sum\<close> and \<open>chain.from_iterable\<close>, and the division by
  an integer zero.
\<close>

lemma fl_add_zero_left: "fl_add (Fin 0) x = x"
  by (cases x) simp_all

lemma fl_add_assoc: "fl_add (fl_add a b) c = fl_add a (fl_add b c)"
  by (cases a; cases b; cases c) simp_all

lemma tensor_scalar_fits: "fits_int64 i \<Longrightarrow> tensor_scalar i = Inr (Fin (of_int i))"
  by (simp add: tensor_scalar_def)

lemma fits_int64_zero: "fits_int64 0"
  by (simp add: fits_int64_def)

lemma py_sum_from_ints:
  "py_sum_from (PyInt a) (map (\<lambda>i. PyNum (PyInt i)) js) = Inr (PyInt (a + sum_list js))"
  by (induction js arbitrary: a) (simp_all add: and_then_def add.assoc)

lemma py_sum_from_tensors:
  "py_sum_from (Tensor t) (map (\<lambda>x. PyNum (Tensor x)) xs) = Inr (Tensor (fl_add t (fl_sum xs)))"
proof (induction xs arbitrary: t)
  case Nil
  show ?case by (cases t) simp_all
next
  case (Cons x xs)
  then show ?case by (simp add: and_then_def fl_add_assoc)
qed

lemma py_sum_tensors:
  "\<exists>v. py_sum (map (\<lambda>x. PyNum (Tensor x)) xs) = Inr v \<and> to_fl v = fl_sum xs \<and>
       (xs \<noteq> [] \<longrightarrow> v = Tensor (fl_sum xs))"
proof (cases xs)
  case Nil
  then show ?thesis by (simp add: py_sum_def)
next
  case (Cons x rest)
  then show ?thesis
    by (simp add: py_sum_def and_then_def tensor_scalar_fits fits_int64_zero
        fl_add_zero_left py_sum_from_tensors)
qed

lemma chain_from_iterable_lists:
  "chain_from_iterable (map PyList xss) = Inr (concat xss)"
  by (induction xss) (simp_all add: and_then_def)

lemma chain_from_iterable_Inl:
  "chain_from_iterable vs = Inl e \<Longrightarrow> e = TypeError"
  by (induction vs rule: chain_from_iterable.induct)
     (auto simp: and_then_def split: sum.splits)

lemma chain_get_Inl: "chain_get k logs = Inl e \<Longrightarrow> e = TypeError"
  unfolding chain_get_def by (rule chain_from_iterable_Inl)

lemma python_zero_division:
  "\<not> is_tensor L \<Longrightarrow> (py_truediv L (PyInt 0) :: 'e error + number) = Inl ZeroDivisionError"
  by (cases L) (simp_all add: float_of_int_def and_then_def)

lemma tensor_zero_division:
  "\<exists>v. (\<forall>x. v \<noteq> Fin x) \<and>
       (and_then (py_truediv (Tensor t) (PyInt 0)) (\<lambda>q. py_truediv q (PyFloat (Fin (ln 2))))
          :: 'e error + number) = Inr (Tensor v)"
proof -
  have "\<forall>x. fl_div (fl_div t (Fin 0)) (Fin (ln 2)) \<noteq> Fin x"
    by (cases t) simp_all
  then show ?thesis
    by (simp add: and_then_def tensor_scalar_def fits_int64_def)
qed

lemma sum_of_lengths:
  assumes "\<forall>lg \<in> set logs. f lg = int (length (g lg))"
  shows "sum_list (map f logs) = int (length (concat (map g logs)))"
  using assms by (induction logs) simp_all

text \<open>
  What \<open>reduce_metrics\<close> reads from a logging output of \<open>forward\<close>, the sums and pooled
  lists of a list of such outputs, and the result of the method on a summed loss that is a
  tensor and on integer counts that fit 64 bits.
\<close>

lemma forward_log_readers:
  fixes lib :: "('l, 'f) torch"
  assumes "forward lib cfg self mdl smp = Inr (loss, n, lg)"
  shows "dict_get lg ''loss'' d = PyNum (Tensor (loss_entry lg)) \<and>
         dict_get lg ''ntokens'' d = PyNum (PyInt (int_entry ''ntokens'' lg)) \<and>
         dict_get lg ''nsentences'' d = PyNum (PyInt (int_entry ''nsentences'' lg)) \<and>
         dict_get lg ''sample_size'' d = PyNum (PyInt (int_entry ''sample_size'' lg)) \<and>
         dict_get lg ''preds'' d = PyList (list_entry ''preds'' lg) \<and>
         dict_get lg ''targets'' d = PyList (list_entry ''targets'' lg) \<and>
         loss_entry lg = loss \<and>
         int_entry ''nsentences'' lg = n \<and>
         int_entry ''sample_size'' lg = n \<and>
         int (length (list_entry ''targets'' lg)) = n \<and>
         has_key lg ''ncorrect'' \<and> has_key lg ''ncorrect_pred'' \<and>
         has_key lg ''ncorrect_actual'' \<and> has_key lg ''ncorrect_total'' \<and>
         has_key lg ''preds'' \<and> has_key lg ''targets''"
proof -
  from forward_Inr_cases [OF assms]
  obtain t n0 n1 preds agree hit where
    n: "n = numel (view_flat t)" and
    lg: "lg = [''loss'' \<mapsto> PyNum (Tensor loss),
           ''ntokens'' \<mapsto> PyNum (PyInt (n0 + n1)),
           ''nsentences'' \<mapsto> PyNum (PyInt n),
           ''sample_size'' \<mapsto> PyNum (PyInt n),
           ''ncorrect'' \<mapsto> PyNum (PyInt (sum_item hit)),
           ''ncorrect_total'' \<mapsto> PyNum (PyInt (sum_item agree)),
           ''ncorrect_pred'' \<mapsto>
             PyNum (PyInt (sum_item (gt_scalar preds (cosine_embedding_loss_margin cfg)))),
           ''ncorrect_actual'' \<mapsto>
             PyNum (PyInt (sum_item (gt_scalar (view_flat t) (cosine_embedding_loss_margin cfg)))),
           ''preds'' \<mapsto> PyList preds,
           ''targets'' \<mapsto> PyList (view_flat t)]"
    by blast
  show ?thesis
    unfolding lg has_key_def dict_get_def loss_entry_def int_entry_def list_entry_def
    by (simp add: n numel_def)
qed

lemma sum_get_int_entries:
  assumes "\<forall>lg \<in> set logs. dict_get lg k (PyNum (PyInt 0)) = PyNum (PyInt (int_entry k lg))"
  shows "(sum_get k logs :: 'e error + number) = Inr (PyInt (sum_list (map (int_entry k) logs)))"
proof -
  from assms have "map (\<lambda>lg. dict_get lg k (PyNum (PyInt 0))) logs
      = map (\<lambda>i. PyNum (PyInt i)) (map (int_entry k) logs)"
    by simp
  then show ?thesis
    unfolding sum_get_def py_sum_def by (simp only: py_sum_from_ints) simp
qed

lemma sum_get_loss_entries:
  assumes "\<forall>lg \<in> set logs. dict_get lg ''loss'' (PyNum (PyInt 0)) = PyNum (Tensor (loss_entry lg))"
  shows "\<exists>v. (sum_get ''loss'' logs :: 'e error + number) = Inr v \<and>
             to_fl v = fl_sum (map loss_entry logs) \<and>
             (logs \<noteq> [] \<longrightarrow> v = Tensor (fl_sum (map loss_entry logs)))"
proof -
  from assms have eq: "map (\<lambda>lg. dict_get lg ''loss'' (PyNum (PyInt 0))) logs
      = map (\<lambda>x. PyNum (Tensor x)) (map loss_entry logs)"
    by simp
  have ne: "map loss_entry logs \<noteq> [] \<longleftrightarrow> logs \<noteq> []" by simp
  show ?thesis
    unfolding sum_get_def eq
    using py_sum_tensors [of "map loss_entry logs", where ?'a = 'e]
    by (simp only: ne)
qed

lemma chain_get_list_entries:
  assumes "\<forall>lg \<in> set logs. dict_get lg k (PyNum (PyInt 0)) = PyList (list_entry k lg)"
  shows "(chain_get k logs :: 'e error + real list) = Inr (concat (map (list_entry k) logs))"
proof -
  from assms have "map (\<lambda>lg. dict_get lg k (PyNum (PyInt 0))) logs
      = map PyList (map (list_entry k) logs)"
    by simp
  then show ?thesis
    unfolding chain_get_def by (simp only: chain_from_iterable_lists)
qed

lemma reduce_metrics_tensor_ints:
  fixes roc :: "real list \<Rightarrow> real list \<Rightarrow> 'e + fl"
  assumes "sum_get ''loss'' logs = (Inr (Tensor t) :: 'e error + number)"
    and "sum_get ''ntokens'' logs = (Inr (PyInt nt) :: 'e error + number)"
    and "sum_get ''nsentences'' logs = (Inr (PyInt ns) :: 'e error + number)"
    and "sum_get ''sample_size'' logs = (Inr (PyInt ss) :: 'e error + number)"
    and "fits_int64 ss" and "fits_int64 nt"
    and "auc_keys_present logs"
    and "chain_get ''preds'' logs = (Inr preds :: 'e error + real list)"
    and "chain_get ''targets'' logs = (Inr targets :: 'e error + real list)"
  shows "reduce_metrics roc logs ms =
           (let ms2 = ms
                  @ [\<lparr>m_key = ''loss'',
                       m_value = Tensor (fl_div (fl_div t (Fin (of_int ss))) (Fin (ln 2))),
                       m_weight = PyInt ss, m_round = 3\<rparr>]
                  @ (if ss \<noteq> nt
                     then [\<lparr>m_key = ''nll_loss'',
                             m_value = Tensor (fl_div (fl_div t (Fin (of_int nt))) (Fin (ln 2))),
                             m_weight = PyInt nt, m_round = 3\<rparr>]
                     else [])
            in case (if length (remdups targets) \<noteq> 2 then Inr (Fin 1)
                     else raised (roc targets preds)) of
                 Inl e \<Rightarrow> (Inl e, ms2)
               | Inr auc \<Rightarrow>
                   (Inr (), ms2 @ [\<lparr>m_key = ''AUC'', m_value = PyFloat auc,
                                     m_weight = PyInt ns, m_round = 4\<rparr>]))"
  unfolding reduce_metrics_def using assms
  by (simp add: try_with_def and_then_def Let_def log_scalar_def tensor_scalar_def
      split: sum.splits)

lemma forward_logs_aggregates:
  assumes fwd: "\<forall>lg \<in> set logs.
       \<exists>(lib :: ('l, 'f) torch) cfg self (mdl :: ('inp, 'l, 'x, 'h, 'f) model) smp loss n.
         forward lib cfg self mdl smp = Inr (loss, n, lg)"
  shows "(\<exists>v. sum_get ''loss'' logs = (Inr v :: 'e error + number) \<and>
              to_fl v = fl_sum (map loss_entry logs) \<and>
              (logs \<noteq> [] \<longrightarrow> v = Tensor (fl_sum (map loss_entry logs)))) \<and>
         sum_get ''ntokens'' logs
           = (Inr (PyInt (sum_list (map (int_entry ''ntokens'') logs))) :: 'e error + number) \<and>
         sum_get ''nsentences'' logs
           = (Inr (PyInt (sum_list (map (int_entry ''nsentences'') logs))) :: 'e error + number) \<and>
         sum_get ''sample_size'' logs
           = (Inr (PyInt (sum_list (map (int_entry ''sample_size'') logs))) :: 'e error + number) \<and>
         chain_get ''preds'' logs
           = (Inr (concat (map (list_entry ''preds'') logs)) :: 'e error + real list) \<and>
         chain_get ''targets'' logs
           = (Inr (concat (map (list_entry ''targets'') logs)) :: 'e error + real list) \<and>
         (logs \<noteq> [] \<longrightarrow> auc_keys_present logs) \<and>
         (\<forall>lg \<in> set logs. int_entry ''sample_size'' lg
             = int (length (list_entry ''targets'' lg)))"
proof -
  have r: "dict_get lg ''loss'' d = PyNum (Tensor (loss_entry lg)) \<and>
         dict_get lg ''ntokens'' d = PyNum (PyInt (int_entry ''ntokens'' lg)) \<and>
         dict_get lg ''nsentences'' d = PyNum (PyInt (int_entry ''nsentences'' lg)) \<and>
         dict_get lg ''sample_size'' d = PyNum (PyInt (int_entry ''sample_size'' lg)) \<and>
         dict_get lg ''preds'' d = PyList (list_entry ''preds'' lg) \<and>
         dict_get lg ''targets'' d = PyList (list_entry ''targets'' lg) \<and>
         int_entry ''sample_size'' lg = int (length (list_entry ''targets'' lg)) \<and>
         has_key lg ''ncorrect'' \<and> has_key lg ''ncorrect_pred'' \<and>
         has_key lg ''ncorrect_actual'' \<and> has_key lg ''ncorrect_total'' \<and>
         has_key lg ''preds'' \<and> has_key lg ''targets''"
    if "lg \<in> set logs" for lg d
  proof -
    from fwd that obtain lib :: "('l, 'f) torch" and cfg self
      and mdl :: "('inp, 'l, 'x, 'h, 'f) model" and smp loss n
      where "forward lib cfg self mdl smp = Inr (loss, n, lg)"
      by blast
    from forward_log_readers [OF this, of d] show ?thesis by simp
  qed
  have L: "\<exists>v. sum_get ''loss'' logs = (Inr v :: 'e error + number) \<and>
              to_fl v = fl_sum (map loss_entry logs) \<and>
              (logs \<noteq> [] \<longrightarrow> v = Tensor (fl_sum (map loss_entry logs)))"
    by (rule sum_get_loss_entries) (simp add: r)
  have NT: "sum_get ''ntokens'' logs
           = (Inr (PyInt (sum_list (map (int_entry ''ntokens'') logs))) :: 'e error + number)"
    by (rule sum_get_int_entries) (simp add: r)
  have NS: "sum_get ''nsentences'' logs
           = (Inr (PyInt (sum_list (map (int_entry ''nsentences'') logs))) :: 'e error + number)"
    by (rule sum_get_int_entries) (simp add: r)
  have SS: "sum_get ''sample_size'' logs
           = (Inr (PyInt (sum_list (map (int_entry ''sample_size'') logs))) :: 'e error + number)"
    by (rule sum_get_int_entries) (simp add: r)
  have P: "chain_get ''preds'' logs
           = (Inr (concat (map (list_entry ''preds'') logs)) :: 'e error + real list)"
    by (rule chain_get_list_entries) (simp add: r)
  have T: "chain_get ''targets'' logs
           = (Inr (concat (map (list_entry ''targets'') logs)) :: 'e error + real list)"
    by (rule chain_get_list_entries) (simp add: r)
  have K: "auc_keys_present logs" if "logs \<noteq> []"
  proof -
    from that obtain lg0 rest where "logs = lg0 # rest" by (cases logs) simp_all
    with r [of lg0] show ?thesis by (simp add: auc_keys_present_def)
  qed
  have N: "\<forall>lg \<in> set logs. int_entry ''sample_size'' lg
             = int (length (list_entry ''targets'' lg))"
    using r by blast
  from L NT NS SS P T K N show ?thesis by (intro conjI impI)
qed

lemma ex_logs_forward:
  "\<forall>lg \<in> set [ex_log, ex_log_one_class].
       \<exists>(lib :: (real list list, lib_exn) torch) cfg self
          (mdl :: (real list list, real list list, unit, unit, lib_exn) model) smp loss n.
         forward lib cfg self mdl smp = Inr (loss, n, lg)"
proof
  fix lg assume "lg \<in> set [ex_log, ex_log_one_class]"
  then consider "lg = ex_log" | "lg = ex_log_one_class" by auto
  then show "\<exists>(lib :: (real list list, lib_exn) torch) cfg self
          (mdl :: (real list list, real list list, unit, unit, lib_exn) model) smp loss n.
         forward lib cfg self mdl smp = Inr (loss, n, lg)"
  proof cases
    case 1
    with ex_forward
    have "forward torch_ref ex_cfg ex_self ex_model ex_sample = Inr (Fin (1 / 2), 2, lg)"
      by simp
    then show ?thesis by (intro exI)
  next
    case 2
    with ex_forward_one_class
    have "forward torch_ref ex_cfg ex_self ex_model ex_sample_one_class = Inr (Fin 0, 2, lg)"
      by simp
    then show ?thesis by (intro exI)
  qed
qed

text \<open>
  The method on the example logging outputs. On the output with the token count beyond
  64 bits the division of the summed loss by the summed token count raises.
\<close>

lemmas reduce_defs =
  reduce_metrics_def try_with_def sum_get_def chain_get_def py_sum_def dict_get_def and_then_def
  log_scalar_def auc_keys_present_def has_key_def fl_ne_def raised_def Let_def
  tensor_scalar_def fits_int64_def float_of_int_def

lemma ex_reduce_one_class:
  "reduce_metrics ref_roc_auc_score [ex_log_one_class] [] =
     (Inr (),
      [\<lparr>m_key = ''loss'', m_value = Tensor (Fin 0), m_weight = PyInt 2, m_round = 3\<rparr>,
       \<lparr>m_key = ''nll_loss'', m_value = Tensor (Fin 0), m_weight = PyInt 12, m_round = 3\<rparr>,
       \<lparr>m_key = ''AUC'', m_value = PyFloat (Fin 1), m_weight = PyInt 2, m_round = 4\<rparr>])"
  by (simp add: reduce_defs ex_log_one_class_def)

lemma ex_reduce_empty_batch:
  "reduce_metrics ref_roc_auc_score [ex_log_empty] [] =
     (Inr (),
      [\<lparr>m_key = ''loss'', m_value = Tensor NaN, m_weight = PyInt 0, m_round = 3\<rparr>,
       \<lparr>m_key = ''AUC'', m_value = PyFloat (Fin 1), m_weight = PyInt 0, m_round = 4\<rparr>])"
  by (simp add: reduce_defs ex_log_empty_def)

lemma ex_reduce:
  "reduce_metrics ref_roc_auc_score [ex_log] [] =
     (Inr (),
      [\<lparr>m_key = ''loss'', m_value = Tensor (Fin (1 / 2 / 2 / ln 2)), m_weight = PyInt 2, m_round = 3\<rparr>,
       \<lparr>m_key = ''nll_loss'', m_value = Tensor (Fin (1 / 2 / 12 / ln 2)), m_weight = PyInt 12, m_round = 3\<rparr>,
       \<lparr>m_key = ''AUC'', m_value = PyFloat (Fin (1 / 2)), m_weight = PyInt 2, m_round = 4\<rparr>])"
  by (simp add: reduce_defs ex_log_def ref_roc_auc_score_def)

lemma ex_reduce_no_preds:
  "reduce_metrics ref_roc_auc_score [ex_log, ex_log_no_preds] [] =
     (Inl TypeError,
      [\<lparr>m_key = ''loss'', m_value = Tensor (Fin (1 / 4 / ln 2)), m_weight = PyInt 4, m_round = 3\<rparr>,
       \<lparr>m_key = ''nll_loss'', m_value = Tensor (Fin (1 / 24 / ln 2)), m_weight = PyInt 24, m_round = 3\<rparr>])"
  by (simp add: reduce_defs ex_log_def ex_log_no_preds_def)

lemma ex_reduce_overflow:
  "reduce_metrics ref_roc_auc_score [ex_log_huge] [] =
     (Inl OverflowError,
      [\<lparr>m_key = ''loss'', m_value = Tensor (Fin (1 / 2 / 2 / ln 2)), m_weight = PyInt 2,
         m_round = 3\<rparr>])"
  by (simp add: reduce_defs ex_log_huge_def)

lemma ex_roc_one_class: "ref_roc_auc_score [1, 1] [1, 1] = Inr NaN"
  by (simp add: ref_roc_auc_score_def)

lemma ex_roc: "ref_roc_auc_score [1, - 1] [1, 1] = Inr (Fin (1 / 2))"
  by (simp add: ref_roc_auc_score_def)

text \<open>
  Claim C3, as stated, fails on the logging output of a batch whose targets all belong to
  one class: \<open>AUC\<close> is logged as 1.0, which is not the value of \<open>roc_auc_score\<close> on these
  pooled targets and predictions (it is not a number there).
\<close>

theorem reduce_metrics_auc_counterexample:
  "forward torch_ref ex_cfg ex_self ex_model ex_sample_one_class
     = Inr (Fin 0, 2, ex_log_one_class) \<and>
   chain_get ''targets'' [ex_log_one_class] = (Inr [1, 1] :: lib_exn error + real list) \<and>
   chain_get ''preds'' [ex_log_one_class] = (Inr [1, 1] :: lib_exn error + real list) \<and>
   ref_roc_auc_score [1, 1] [1, 1] = Inr NaN \<and>
   reduce_metrics ref_roc_auc_score [ex_log_one_class] [] =
     (Inr (),
      [\<lparr>m_key = ''loss'', m_value = Tensor (Fin 0), m_weight = PyInt 2, m_round = 3\<rparr>,
       \<lparr>m_key = ''nll_loss'', m_value = Tensor (Fin 0), m_weight = PyInt 12, m_round = 3\<rparr>,
       \<lparr>m_key = ''AUC'', m_value = PyFloat (Fin 1), m_weight = PyInt 2, m_round = 4\<rparr>])"
proof -
  have "chain_get ''targets'' [ex_log_one_class] = (Inr [1, 1] :: lib_exn error + real list)"
    and "chain_get ''preds'' [ex_log_one_class] = (Inr [1, 1] :: lib_exn error + real list)"
    by (simp_all add: chain_get_def dict_get_def and_then_def ex_log_one_class_def)
  with ex_forward_one_class ex_roc_one_class ex_reduce_one_class
  show ?thesis by (intro conjI)
qed

text \<open>
  Claim C3, amended. For a non-empty list of logging outputs produced by \<open>forward\<close> whose
  summed sample_size and summed ntokens fit a 64-bit integer, the pooled lists exist and
  nothing raises before the score is computed. When the pooled targets hold exactly two
  distinct values, \<open>AUC\<close> is logged with the value of \<open>roc_auc_score\<close> on the pooled targets
  and predictions, provided that call returns (its exception is not caught otherwise);
  when they do not, \<open>AUC\<close> is logged as 1.0. The weight is the summed nsentences.
\<close>

theorem reduce_metrics_logs_auc:
  fixes roc :: "real list \<Rightarrow> real list \<Rightarrow> 'e + fl"
  assumes ne: "logs \<noteq> []"
    and fwd: "\<forall>lg \<in> set logs.
       \<exists>(lib :: ('l, 'f) torch) cfg self (mdl :: ('inp, 'l, 'x, 'h, 'f) model) smp loss n.
         forward lib cfg self mdl smp = Inr (loss, n, lg)"
    and ss: "sum_get ''sample_size'' logs = (Inr (PyInt ss) :: 'e error + number)"
    and fits_ss: "fits_int64 ss"
    and nt: "sum_get ''ntokens'' logs = (Inr (PyInt nt) :: 'e error + number)"
    and fits_nt: "fits_int64 nt"
  shows "\<exists>preds targets nsentences ms2.
       chain_get ''preds'' logs = (Inr preds :: 'e error + real list) \<and>
       chain_get ''targets'' logs = (Inr targets :: 'e error + real list) \<and>
       sum_get ''nsentences'' logs = (Inr nsentences :: 'e error + number) \<and>
       (card (set targets) \<noteq> 2 \<longrightarrow>
          reduce_metrics roc logs ms =
            (Inr (), ms2 @ [\<lparr>m_key = ''AUC'', m_value = PyFloat (Fin 1),
                              m_weight = nsentences, m_round = 4\<rparr>])) \<and>
       (card (set targets) = 2 \<longrightarrow>
          (\<forall>auc. roc targets preds = Inr auc \<longrightarrow>
             reduce_metrics roc logs ms =
               (Inr (), ms2 @ [\<lparr>m_key = ''AUC'', m_value = PyFloat auc,
                                 m_weight = nsentences, m_round = 4\<rparr>])) \<and>
          (\<forall>e. roc targets preds = Inl e \<longrightarrow>
             reduce_metrics roc logs ms = (Inl (Raised e), ms2)))"
proof -
  note agg = forward_logs_aggregates [OF fwd, where ?'e = 'e]
  from agg ne have
    L: "sum_get ''loss'' logs
          = (Inr (Tensor (fl_sum (map loss_entry logs))) :: 'e error + number)"
    and keys: "auc_keys_present logs"
    by auto
  from agg obtain ns preds targets where
    NS: "sum_get ''nsentences'' logs = (Inr (PyInt ns) :: 'e error + number)"
    and P: "chain_get ''preds'' logs = (Inr preds :: 'e error + real list)"
    and T: "chain_get ''targets'' logs = (Inr targets :: 'e error + real list)"
    by blast
  note r = reduce_metrics_tensor_ints [OF L nt NS ss fits_ss fits_nt keys P T, of roc ms]
  define ms2 where "ms2 = ms
      @ [\<lparr>m_key = ''loss'',
           m_value = Tensor (fl_div (fl_div (fl_sum (map loss_entry logs)) (Fin (of_int ss)))
                                    (Fin (ln 2))),
           m_weight = PyInt ss, m_round = 3\<rparr>]
      @ (if ss \<noteq> nt
         then [\<lparr>m_key = ''nll_loss'',
                 m_value = Tensor (fl_div (fl_div (fl_sum (map loss_entry logs)) (Fin (of_int nt)))
                                          (Fin (ln 2))),
                 m_weight = PyInt nt, m_round = 3\<rparr>]
         else [])"
  have one: "reduce_metrics roc logs ms =
            (Inr (), ms2 @ [\<lparr>m_key = ''AUC'', m_value = PyFloat (Fin 1),
                              m_weight = PyInt ns, m_round = 4\<rparr>])"
    if "card (set targets) \<noteq> 2"
    using r that unfolding ms2_def Let_def by (simp add: length_remdups_card_conv)
  have two: "reduce_metrics roc logs ms =
               (Inr (), ms2 @ [\<lparr>m_key = ''AUC'', m_value = PyFloat auc,
                                 m_weight = PyInt ns, m_round = 4\<rparr>])"
    if "card (set targets) = 2" "roc targets preds = Inr auc" for auc
    using r that unfolding ms2_def Let_def by (simp add: length_remdups_card_conv raised_def)
  have err: "reduce_metrics roc logs ms = (Inl (Raised e), ms2)"
    if "card (set targets) = 2" "roc targets preds = Inl e" for e
    using r that unfolding ms2_def Let_def by (simp add: length_remdups_card_conv raised_def)
  from P T NS one two err show ?thesis by blast
qed

theorem reduce_metrics_logs_auc_witness:
  "[ex_log] \<noteq> [] \<and>
   forward torch_ref ex_cfg ex_self ex_model ex_sample = Inr (Fin (1 / 2), 2, ex_log) \<and>
   sum_get ''sample_size'' [ex_log] = (Inr (PyInt 2) :: lib_exn error + number) \<and>
   fits_int64 2 \<and>
   sum_get ''ntokens'' [ex_log] = (Inr (PyInt 12) :: lib_exn error + number) \<and>
   fits_int64 12 \<and>
   card (set [1, - 1 :: real]) = 2 \<and>
   ref_roc_auc_score [1, - 1] [1, 1] = Inr (Fin (1 / 2)) \<and>
   (\<exists>ms2. reduce_metrics ref_roc_auc_score [ex_log] [] =
      (Inr (), ms2 @ [\<lparr>m_key = ''AUC'', m_value = PyFloat (Fin (1 / 2)),
                        m_weight = PyInt 2, m_round = 4\<rparr>]))"
proof -
  have ne: "[ex_log] \<noteq> []" by simp
  have fwd: "\<forall>lg \<in> set [ex_log].
       \<exists>(lib :: (real list list, lib_exn) torch) cfg self
          (mdl :: (real list list, real list list, unit, unit, lib_exn) model) smp loss n.
         forward lib cfg self mdl smp = Inr (loss, n, lg)"
  proof
    fix lg assume "lg \<in> set [ex_log]"
    then have "forward torch_ref ex_cfg ex_self ex_model ex_sample = Inr (Fin (1 / 2), 2, lg)"
      using ex_forward by simp
    then show "\<exists>(lib :: (real list list, lib_exn) torch) cfg self
          (mdl :: (real list list, real list list, unit, unit, lib_exn) model) smp loss n.
         forward lib cfg self mdl smp = Inr (loss, n, lg)"
      by (intro exI)
  qed
  have ss: "sum_get ''sample_size'' [ex_log] = (Inr (PyInt 2) :: lib_exn error + number)"
    and nt: "sum_get ''ntokens'' [ex_log] = (Inr (PyInt 12) :: lib_exn error + number)"
    by (simp_all add: sum_get_def py_sum_def dict_get_def and_then_def ex_log_def)
  have f: "fits_int64 2" "fits_int64 12" by (simp_all add: fits_int64_def)
  have c: "card (set [1, - 1 :: real]) = 2" by simp
  from reduce_metrics_logs_auc [OF ne fwd ss f(1) nt f(2), of ref_roc_auc_score "[]"]
  obtain preds targets nsentences ms2 where
    p: "chain_get ''preds'' [ex_log] = (Inr preds :: lib_exn error + real list)"
    and t: "chain_get ''targets'' [ex_log] = (Inr targets :: lib_exn error + real list)"
    and n: "sum_get ''nsentences'' [ex_log] = (Inr nsentences :: lib_exn error + number)"
    and two: "card (set targets) = 2 \<longrightarrow>
          (\<forall>auc. ref_roc_auc_score targets preds = Inr auc \<longrightarrow>
             reduce_metrics ref_roc_auc_score [ex_log] [] =
               (Inr (), ms2 @ [\<lparr>m_key = ''AUC'', m_value = PyFloat auc,
                                 m_weight = nsentences, m_round = 4\<rparr>]))"
    by blast
  from p have p': "preds = [1, 1]"
    by (simp add: chain_get_def dict_get_def and_then_def ex_log_def)
  from t have t': "targets = [1, - 1]"
    by (simp add: chain_get_def dict_get_def and_then_def ex_log_def)
  from n have n': "nsentences = PyInt 2"
    by (simp add: sum_get_def py_sum_def dict_get_def and_then_def ex_log_def)
  from two c ex_roc have "reduce_metrics ref_roc_auc_score [ex_log] [] =
      (Inr (), ms2 @ [\<lparr>m_key = ''AUC'', m_value = PyFloat (Fin (1 / 2)),
                        m_weight = PyInt 2, m_round = 4\<rparr>])"
    unfolding p' t' n' by blast
  then have "\<exists>ms2. reduce_metrics ref_roc_auc_score [ex_log] [] =
      (Inr (), ms2 @ [\<lparr>m_key = ''AUC'', m_value = PyFloat (Fin (1 / 2)),
                        m_weight = PyInt 2, m_round = 4\<rparr>])"
    by (rule exI)
  with ne ex_forward ss nt f c ex_roc show ?thesis by (intro conjI)
qed

text \<open>
  Claim C4, as stated, fails on a list whose second worker has no \<open>preds\<close> entry: there
  is no pooled list, the pooling raises \<open>TypeError\<close> after the loss metrics are logged.
\<close>

theorem reduce_metrics_sums_and_concatenates_counterexample:
  "ex_log ''preds'' = Some (PyList [1, 1]) \<and>
   ex_log_no_preds ''preds'' = None \<and>
   auc_keys_present [ex_log, ex_log_no_preds] \<and>
   chain_get ''preds'' [ex_log, ex_log_no_preds] = (Inl TypeError :: lib_exn error + real list) \<and>
   reduce_metrics ref_roc_auc_score [ex_log, ex_log_no_preds] [] =
     (Inl TypeError,
      [\<lparr>m_key = ''loss'', m_value = Tensor (Fin (1 / 4 / ln 2)),
         m_weight = PyInt 4, m_round = 3\<rparr>,
       \<lparr>m_key = ''nll_loss'', m_value = Tensor (Fin (1 / 24 / ln 2)),
         m_weight = PyInt 24, m_round = 3\<rparr>])"
proof -
  have "ex_log ''preds'' = Some (PyList [1, 1])"
    and "ex_log_no_preds ''preds'' = None"
    and "auc_keys_present [ex_log, ex_log_no_preds]"
    and "chain_get ''preds'' [ex_log, ex_log_no_preds]
           = (Inl TypeError :: lib_exn error + real list)"
    by (simp_all add: ex_log_def ex_log_no_preds_def auc_keys_present_def has_key_def
        chain_get_def dict_get_def and_then_def)
  with ex_reduce_no_preds show ?thesis by (intro conjI)
qed

text \<open>
  Claim C4, amended. For every list of logging outputs produced by \<open>forward\<close>, the
  aggregated loss, ntokens, nsentences and sample_size are the sums of the workers'
  entries and the pooled preds and targets are the concatenations of the workers' lists in
  the order of the workers. When the list is not empty and the summed sample_size and
  ntokens fit a 64-bit integer, \<open>reduce_metrics\<close> logs exactly the metrics computed from
  these aggregates: \<open>loss\<close>, then \<open>nll_loss\<close> if sample_size and ntokens differ, then
  \<open>AUC\<close> of the pooled lists.
\<close>

theorem reduce_metrics_sums_and_concatenates:
  fixes roc :: "real list \<Rightarrow> real list \<Rightarrow> 'e + fl"
  assumes fwd: "\<forall>lg \<in> set logs.
       \<exists>(lib :: ('l, 'f) torch) cfg self (mdl :: ('inp, 'l, 'x, 'h, 'f) model) smp loss n.
         forward lib cfg self mdl smp = Inr (loss, n, lg)"
  shows "let loss_sum = fl_sum (map loss_entry logs);
             ntokens = sum_list (map (int_entry ''ntokens'') logs);
             nsentences = sum_list (map (int_entry ''nsentences'') logs);
             sample_size = sum_list (map (int_entry ''sample_size'') logs);
             preds = concat (map (list_entry ''preds'') logs);
             targets = concat (map (list_entry ''targets'') logs)
         in (\<exists>v. sum_get ''loss'' logs = (Inr v :: 'e error + number) \<and> to_fl v = loss_sum) \<and>
            sum_get ''ntokens'' logs = (Inr (PyInt ntokens) :: 'e error + number) \<and>
            sum_get ''nsentences'' logs = (Inr (PyInt nsentences) :: 'e error + number) \<and>
            sum_get ''sample_size'' logs = (Inr (PyInt sample_size) :: 'e error + number) \<and>
            chain_get ''preds'' logs = (Inr preds :: 'e error + real list) \<and>
            chain_get ''targets'' logs = (Inr targets :: 'e error + real list) \<and>
            (logs \<noteq> [] \<and> fits_int64 sample_size \<and> fits_int64 ntokens \<longrightarrow>
               reduce_metrics roc logs ms =
                 (let ms2 = ms
                        @ [\<lparr>m_key = ''loss'',
                             m_value = Tensor (fl_div (fl_div loss_sum (Fin (of_int sample_size)))
                                                      (Fin (ln 2))),
                             m_weight = PyInt sample_size, m_round = 3\<rparr>]
                        @ (if sample_size \<noteq> ntokens
                           then [\<lparr>m_key = ''nll_loss'',
                                   m_value = Tensor (fl_div (fl_div loss_sum (Fin (of_int ntokens)))
                                                            (Fin (ln 2))),
                                   m_weight = PyInt ntokens, m_round = 3\<rparr>]
                           else [])
                  in case (if length (remdups targets) \<noteq> 2 then Inr (Fin 1)
                           else raised (roc targets preds)) of
                       Inl e \<Rightarrow> (Inl e, ms2)
                     | Inr auc \<Rightarrow>
                         (Inr (), ms2 @ [\<lparr>m_key = ''AUC'', m_value = PyFloat auc,
                                           m_weight = PyInt nsentences, m_round = 4\<rparr>])))"
proof -
  note agg = forward_logs_aggregates [OF fwd, where ?'e = 'e]
  from agg obtain v where
    L: "sum_get ''loss'' logs = (Inr v :: 'e error + number)"
      "to_fl v = fl_sum (map loss_entry logs)"
      "logs \<noteq> [] \<longrightarrow> v = Tensor (fl_sum (map loss_entry logs))"
    by blast
  from agg have
    NT: "sum_get ''ntokens'' logs
           = (Inr (PyInt (sum_list (map (int_entry ''ntokens'') logs))) :: 'e error + number)"
    and NS: "sum_get ''nsentences'' logs
           = (Inr (PyInt (sum_list (map (int_entry ''nsentences'') logs))) :: 'e error + number)"
    and SS: "sum_get ''sample_size'' logs
           = (Inr (PyInt (sum_list (map (int_entry ''sample_size'') logs))) :: 'e error + number)"
    and P: "chain_get ''preds'' logs
           = (Inr (concat (map (list_entry ''preds'') logs)) :: 'e error + real list)"
    and T: "chain_get ''targets'' logs
           = (Inr (concat (map (list_entry ''targets'') logs)) :: 'e error + real list)"
    and K: "logs \<noteq> [] \<longrightarrow> auc_keys_present logs"
    by blast+
  have R: "reduce_metrics roc logs ms =
     (let ms2 = ms
            @ [\<lparr>m_key = ''loss'',
                 m_value = Tensor (fl_div (fl_div (fl_sum (map loss_entry logs))
                     (Fin (of_int (sum_list (map (int_entry ''sample_size'') logs)))))
                     (Fin (ln 2))),
                 m_weight = PyInt (sum_list (map (int_entry ''sample_size'') logs)),
                 m_round = 3\<rparr>]
            @ (if sum_list (map (int_entry ''sample_size'') logs)
                    \<noteq> sum_list (map (int_entry ''ntokens'') logs)
               then [\<lparr>m_key = ''nll_loss'',
                       m_value = Tensor (fl_div (fl_div (fl_sum (map loss_entry logs))
                           (Fin (of_int (sum_list (map (int_entry ''ntokens'') logs)))))
                           (Fin (ln 2))),
                       m_weight = PyInt (sum_list (map (int_entry ''ntokens'') logs)),
                       m_round = 3\<rparr>]
               else [])
      in case (if length (remdups (concat (map (list_entry ''targets'') logs))) \<noteq> 2
               then Inr (Fin 1)
               else raised (roc (concat (map (list_entry ''targets'') logs))
                                (concat (map (list_entry ''preds'') logs)))) of
           Inl e \<Rightarrow> (Inl e, ms2)
         | Inr auc \<Rightarrow>
             (Inr (), ms2 @ [\<lparr>m_key = ''AUC'', m_value = PyFloat auc,
                 m_weight = PyInt (sum_list (map (int_entry ''nsentences'') logs)),
                 m_round = 4\<rparr>]))"
    if ne: "logs \<noteq> []"
      and f1: "fits_int64 (sum_list (map (int_entry ''sample_size'') logs))"
      and f2: "fits_int64 (sum_list (map (int_entry ''ntokens'') logs))"
  proof -
    from L ne have L': "sum_get ''loss'' logs
        = (Inr (Tensor (fl_sum (map loss_entry logs))) :: 'e error + number)"
      by simp
    from K ne have keys: "auc_keys_present logs" by simp
    show ?thesis
      by (rule reduce_metrics_tensor_ints [OF L' NT NS SS f1 f2 keys P T])
  qed
  from L(1,2) have "\<exists>v. sum_get ''loss'' logs = (Inr v :: 'e error + number) \<and>
      to_fl v = fl_sum (map loss_entry logs)"
    by blast
  with NT NS SS P T R show ?thesis
    unfolding Let_def by (intro conjI impI) (simp_all only: Let_def, blast+)
qed

theorem reduce_metrics_sums_and_concatenates_witness:
  "forward torch_ref ex_cfg ex_self ex_model ex_sample = Inr (Fin (1 / 2), 2, ex_log) \<and>
   forward torch_ref ex_cfg ex_self ex_model ex_sample_one_class
     = Inr (Fin 0, 2, ex_log_one_class) \<and>
   fits_int64 4 \<and> fits_int64 24 \<and>
   sum_get ''ntokens'' [ex_log, ex_log_one_class]
     = (Inr (PyInt 24) :: lib_exn error + number) \<and>
   sum_get ''sample_size'' [ex_log, ex_log_one_class]
     = (Inr (PyInt 4) :: lib_exn error + number) \<and>
   chain_get ''preds'' [ex_log, ex_log_one_class]
     = (Inr [1, 1, 1, 1] :: lib_exn error + real list) \<and>
   chain_get ''targets'' [ex_log, ex_log_one_class]
     = (Inr [1, - 1, 1, 1] :: lib_exn error + real list) \<and>
   reduce_metrics ref_roc_auc_score [ex_log, ex_log_one_class] [] =
     (Inr (),
      [\<lparr>m_key = ''loss'', m_value = Tensor (Fin (1 / 2 / 4 / ln 2)),
         m_weight = PyInt 4, m_round = 3\<rparr>,
       \<lparr>m_key = ''nll_loss'', m_value = Tensor (Fin (1 / 2 / 24 / ln 2)),
         m_weight = PyInt 24, m_round = 3\<rparr>,
       \<lparr>m_key = ''AUC'', m_value = PyFloat (Fin (1 / 2)),
         m_weight = PyInt 4, m_round = 4\<rparr>])"
proof -
  have e: "loss_entry ex_log = Fin (1 / 2)" "loss_entry ex_log_one_class = Fin 0"
    "int_entry ''ntokens'' ex_log = 12" "int_entry ''ntokens'' ex_log_one_class = 12"
    "int_entry ''nsentences'' ex_log = 2" "int_entry ''nsentences'' ex_log_one_class = 2"
    "int_entry ''sample_size'' ex_log = 2" "int_entry ''sample_size'' ex_log_one_class = 2"
    "list_entry ''preds'' ex_log = [1, 1]" "list_entry ''preds'' ex_log_one_class = [1, 1]"
    "list_entry ''targets'' ex_log = [1, - 1]" "list_entry ''targets'' ex_log_one_class = [1, 1]"
    by (simp_all add: loss_entry_def int_entry_def list_entry_def ex_log_def ex_log_one_class_def)
  have f: "fits_int64 4" "fits_int64 24" by (simp_all add: fits_int64_def)
  have roc: "ref_roc_auc_score [1, - 1, 1, 1] [1, 1, 1, 1] = Inr (Fin (1 / 2))"
    by (simp add: ref_roc_auc_score_def)
  from reduce_metrics_sums_and_concatenates
    [OF ex_logs_forward, of ref_roc_auc_score "[]"]
  have "sum_get ''ntokens'' [ex_log, ex_log_one_class]
     = (Inr (PyInt 24) :: lib_exn error + number) \<and>
   sum_get ''sample_size'' [ex_log, ex_log_one_class]
     = (Inr (PyInt 4) :: lib_exn error + number) \<and>
   chain_get ''preds'' [ex_log, ex_log_one_class]
     = (Inr [1, 1, 1, 1] :: lib_exn error + real list) \<and>
   chain_get ''targets'' [ex_log, ex_log_one_class]
     = (Inr [1, - 1, 1, 1] :: lib_exn error + real list) \<and>
   reduce_metrics ref_roc_auc_score [ex_log, ex_log_one_class] [] =
     (Inr (),
      [\<lparr>m_key = ''loss'', m_value = Tensor (Fin (1 / 2 / 4 / ln 2)),
         m_weight = PyInt 4, m_round = 3\<rparr>,
       \<lparr>m_key = ''nll_loss'', m_value = Tensor (Fin (1 / 2 / 24 / ln 2)),
         m_weight = PyInt 24, m_round = 3\<rparr>,
       \<lparr>m_key = ''AUC'', m_value = PyFloat (Fin (1 / 2)),
         m_weight = PyInt 4, m_round = 4\<rparr>])"
    by (simp add: Let_def e f roc raised_def)
  with ex_forward ex_forward_one_class f show ?thesis by (intro conjI) simp_all
qed

text \<open>
  Claim C8, as stated, fails on the logging output of a batch without sentences: the sample
  sizes sum to zero, yet the summed loss is a tensor, its division by zero is not a number
  and does not raise, and \<open>reduce_metrics\<close> returns.
\<close>

theorem reduce_metrics_zero_sample_size_counterexample:
  "forward torch_ref ex_cfg ex_self ex_model ex_sample_empty = Inr (Fin 0, 0, ex_log_empty) \<and>
   sum_get ''sample_size'' [ex_log_empty] = (Inr (PyInt 0) :: lib_exn error + number) \<and>
   reduce_metrics ref_roc_auc_score [ex_log_empty] [] =
     (Inr (),
      [\<lparr>m_key = ''loss'', m_value = Tensor NaN, m_weight = PyInt 0, m_round = 3\<rparr>,
       \<lparr>m_key = ''AUC'', m_value = PyFloat (Fin 1), m_weight = PyInt 0, m_round = 4\<rparr>])"
proof -
  have "sum_get ''sample_size'' [ex_log_empty] = (Inr (PyInt 0) :: lib_exn error + number)"
    by (simp add: sum_get_def py_sum_def dict_get_def and_then_def ex_log_empty_def)
  with ex_forward_empty ex_reduce_empty_batch show ?thesis by (intro conjI)
qed

text \<open>
  Claim C8, amended. There is no guard against a zero divisor. When the sample sizes sum
  to the integer zero: if the summed loss is a Python number, as on the empty list,
  \<open>reduce_metrics\<close> raises \<open>ZeroDivisionError\<close> before logging anything; if the summed loss
  is a tensor, the division does not raise, the \<open>loss\<close> metric is logged with a value that
  is not finite, and no \<open>ZeroDivisionError\<close> follows; and for a non-empty list of logging
  outputs produced by \<open>forward\<close> whose summed ntokens fits a 64-bit integer the method
  returns.
\<close>

theorem reduce_metrics_zero_sample_size:
  fixes roc :: "real list \<Rightarrow> real list \<Rightarrow> 'e + fl"
  assumes loss: "sum_get ''loss'' logs = (Inr loss_sum :: 'e error + number)"
    and ntokens: "sum_get ''ntokens'' logs = (Inr ntokens :: 'e error + number)"
    and nsentences: "sum_get ''nsentences'' logs = (Inr nsentences :: 'e error + number)"
    and sample_size: "sum_get ''sample_size'' logs = (Inr (PyInt 0) :: 'e error + number)"
  shows "(\<not> is_tensor loss_sum \<longrightarrow>
            reduce_metrics roc logs ms = (Inl ZeroDivisionError, ms)) \<and>
         (is_tensor loss_sum \<longrightarrow>
            (\<exists>v rest. (\<forall>x. v \<noteq> Fin x) \<and>
               snd (reduce_metrics roc logs ms) =
                 ms @ \<lparr>m_key = ''loss'', m_value = Tensor v, m_weight = PyInt 0,
                        m_round = 3\<rparr> # rest) \<and>
            fst (reduce_metrics roc logs ms) \<noteq> Inl ZeroDivisionError) \<and>
         (logs \<noteq> [] \<and>
          (\<forall>lg \<in> set logs.
             \<exists>(lib :: ('l, 'f) torch) cfg self (mdl :: ('inp, 'l, 'x, 'h, 'f) model) smp loss n.
               forward lib cfg self mdl smp = Inr (loss, n, lg)) \<and>
          (\<exists>nt. ntokens = PyInt nt \<and> fits_int64 nt) \<longrightarrow>
            (\<exists>v rest. (\<forall>x. v \<noteq> Fin x) \<and>
               reduce_metrics roc logs ms =
                 (Inr (), ms @ \<lparr>m_key = ''loss'', m_value = Tensor v, m_weight = PyInt 0,
                                 m_round = 3\<rparr> # rest))) \<and>
         reduce_metrics roc [] ms = (Inl ZeroDivisionError, ms)"
proof -
  have a: "reduce_metrics roc logs ms = (Inl ZeroDivisionError, ms)" if "\<not> is_tensor loss_sum"
  proof -
    have "(py_truediv loss_sum (PyInt 0) :: 'e error + number) = Inl ZeroDivisionError"
      using that by (rule python_zero_division)
    then show ?thesis
      unfolding reduce_metrics_def
      using loss ntokens nsentences sample_size
      by (simp add: try_with_def and_then_def)
  qed
  have b: "(\<exists>v rest. (\<forall>x. v \<noteq> Fin x) \<and>
               snd (reduce_metrics roc logs ms) =
                 ms @ \<lparr>m_key = ''loss'', m_value = Tensor v, m_weight = PyInt 0,
                        m_round = 3\<rparr> # rest) \<and>
            fst (reduce_metrics roc logs ms) \<noteq> Inl ZeroDivisionError"
    if "is_tensor loss_sum"
  proof -
    from that obtain t where t: "loss_sum = Tensor t" by (cases loss_sum) simp_all
    from tensor_zero_division [of t, where ?'e = 'e] obtain v where
      v: "\<forall>x. v \<noteq> Fin x"
        "(and_then (py_truediv (Tensor t) (PyInt 0))
            (\<lambda>q. py_truediv q (PyFloat (Fin (ln 2)))) :: 'e error + number) = Inr (Tensor v)"
      by blast
    have nz: "(py_truediv (Tensor t) d :: 'e error + number) \<noteq> Inl ZeroDivisionError" for d
      by (cases d) (simp_all add: and_then_def tensor_scalar_def)
    have nz2: "(and_then (py_truediv (Tensor t) d)
            (\<lambda>q. and_then (py_truediv q (PyFloat (Fin (ln 2)))) (\<lambda>v'. Inr (f v')))
               :: 'e error + meter list) \<noteq> Inl ZeroDivisionError" for d f
      by (cases d) (simp_all add: and_then_def tensor_scalar_def)
    have ne_nz: "(py_ne (PyInt 0) d :: 'e error + bool) \<noteq> Inl ZeroDivisionError" for d
      by (cases d) (simp_all add: and_then_def tensor_scalar_def)
    have s: "\<exists>rest. snd (reduce_metrics roc logs ms) =
                 ms @ \<lparr>m_key = ''loss'', m_value = Tensor v, m_weight = PyInt 0,
                        m_round = 3\<rparr> # rest"
      unfolding reduce_metrics_def
      using loss ntokens nsentences sample_size v(2)
      by (auto simp: t try_with_def Let_def log_scalar_def and_then_def
          split: sum.splits if_splits)
    have f: "fst (reduce_metrics roc logs ms) \<noteq> Inl ZeroDivisionError"
      unfolding reduce_metrics_def
      using loss ntokens nsentences sample_size v(2) nz2 [of ntokens] ne_nz [of ntokens]
      by (auto simp: t try_with_def Let_def raised_def and_then_def
          dest!: chain_get_Inl split: sum.splits if_splits)
    from v(1) s f show ?thesis by blast
  qed
  have c: "\<exists>v rest. (\<forall>x. v \<noteq> Fin x) \<and>
               reduce_metrics roc logs ms =
                 (Inr (), ms @ \<lparr>m_key = ''loss'', m_value = Tensor v, m_weight = PyInt 0,
                                 m_round = 3\<rparr> # rest)"
    if ne: "logs \<noteq> []"
      and fwd: "\<forall>lg \<in> set logs.
             \<exists>(lib :: ('l, 'f) torch) cfg self (mdl :: ('inp, 'l, 'x, 'h, 'f) model) smp loss n.
               forward lib cfg self mdl smp = Inr (loss, n, lg)"
      and nt: "ntokens = PyInt nt" "fits_int64 nt" for nt
  proof -
    note agg = forward_logs_aggregates [OF fwd, where ?'e = 'e]
    from agg ne have
      L: "sum_get ''loss'' logs
            = (Inr (Tensor (fl_sum (map loss_entry logs))) :: 'e error + number)"
      and keys: "auc_keys_present logs"
      by auto
    from agg obtain ns where
      NS: "sum_get ''nsentences'' logs = (Inr (PyInt ns) :: 'e error + number)"
      by blast
    from agg have
      SS: "sum_get ''sample_size'' logs
           = (Inr (PyInt (sum_list (map (int_entry ''sample_size'') logs))) :: 'e error + number)"
      and P: "chain_get ''preds'' logs
           = (Inr (concat (map (list_entry ''preds'') logs)) :: 'e error + real list)"
      and T: "chain_get ''targets'' logs
           = (Inr (concat (map (list_entry ''targets'') logs)) :: 'e error + real list)"
      and N: "\<forall>lg \<in> set logs. int_entry ''sample_size'' lg
             = int (length (list_entry ''targets'' lg))"
      by blast+
    from SS sample_size have "sum_list (map (int_entry ''sample_size'') logs) = 0" by simp
    with sum_of_lengths [OF N] have empty: "concat (map (list_entry ''targets'') logs) = []"
      by simp
    have z: "fits_int64 0" by (simp add: fits_int64_def)
    note r = reduce_metrics_tensor_ints
      [OF L ntokens [unfolded nt(1)] NS sample_size z nt(2) keys P T, of roc ms]
    have "\<forall>x. fl_div (fl_div (fl_sum (map loss_entry logs)) (Fin (of_int 0))) (Fin (ln 2))
            \<noteq> Fin x"
      by (cases "fl_sum (map loss_entry logs)") simp_all
    with r show ?thesis
      unfolding empty Let_def by (simp del: fl_div.simps)
  qed
  have d: "reduce_metrics roc [] ms = (Inl ZeroDivisionError, ms)"
    by (simp add: reduce_defs)
  from a b c d show ?thesis by blast
qed

theorem reduce_metrics_zero_sample_size_witness:
  "sum_get ''loss'' [ex_log_empty] = (Inr (Tensor (Fin 0)) :: lib_exn error + number) \<and>
   sum_get ''ntokens'' [ex_log_empty] = (Inr (PyInt 0) :: lib_exn error + number) \<and>
   sum_get ''nsentences'' [ex_log_empty] = (Inr (PyInt 0) :: lib_exn error + number) \<and>
   sum_get ''sample_size'' [ex_log_empty] = (Inr (PyInt 0) :: lib_exn error + number) \<and>
   is_tensor (Tensor (Fin 0)) \<and> [ex_log_empty] \<noteq> [] \<and> fits_int64 0 \<and>
   forward torch_ref ex_cfg ex_self ex_model ex_sample_empty = Inr (Fin 0, 0, ex_log_empty) \<and>
   (\<exists>v rest. (\<forall>x. v \<noteq> Fin x) \<and>
      reduce_metrics ref_roc_auc_score [ex_log_empty] [] =
        (Inr (), [] @ \<lparr>m_key = ''loss'', m_value = Tensor v, m_weight = PyInt 0,
                        m_round = 3\<rparr> # rest)) \<and>
   sum_get ''loss'' [] = (Inr (PyInt 0) :: lib_exn error + number) \<and>
   sum_get ''sample_size'' [] = (Inr (PyInt 0) :: lib_exn error + number) \<and>
   \<not> is_tensor (PyInt 0) \<and>
   reduce_metrics ref_roc_auc_score [] [] = (Inl ZeroDivisionError, [])"
proof -
  have e: "sum_get ''loss'' [ex_log_empty] = (Inr (Tensor (Fin 0)) :: lib_exn error + number)"
    "sum_get ''ntokens'' [ex_log_empty] = (Inr (PyInt 0) :: lib_exn error + number)"
    "sum_get ''nsentences'' [ex_log_empty] = (Inr (PyInt 0) :: lib_exn error + number)"
    "sum_get ''sample_size'' [ex_log_empty] = (Inr (PyInt 0) :: lib_exn error + number)"
    by (simp_all add: sum_get_def py_sum_def dict_get_def and_then_def tensor_scalar_def
        fits_int64_def ex_log_empty_def)
  have n: "sum_get k [] = (Inr (PyInt 0) :: lib_exn error + number)" for k
    by (simp add: sum_get_def py_sum_def)
  have z: "fits_int64 0" by (simp add: fits_int64_def)
  have ne: "[ex_log_empty] \<noteq> []" by simp
  have fwd: "\<forall>lg \<in> set [ex_log_empty].
       \<exists>(lib :: (real list list, lib_exn) torch) cfg self
          (mdl :: (real list list, real list list, unit, unit, lib_exn) model) smp loss n.
         forward lib cfg self mdl smp = Inr (loss, n, lg)"
  proof
    fix lg assume "lg \<in> set [ex_log_empty]"
    then have "forward torch_ref ex_cfg ex_self ex_model ex_sample_empty = Inr (Fin 0, 0, lg)"
      using ex_forward_empty by simp
    then show "\<exists>(lib :: (real list list, lib_exn) torch) cfg self
          (mdl :: (real list list, real list list, unit, unit, lib_exn) model) smp loss n.
         forward lib cfg self mdl smp = Inr (loss, n, lg)"
      by (intro exI)
  qed
  have nt: "\<exists>nt. PyInt 0 = PyInt nt \<and> fits_int64 nt" using z by blast
  note returns = reduce_metrics_zero_sample_size
    [OF e, of ref_roc_auc_score "[]", THEN conjunct2, THEN conjunct2, THEN conjunct1]
  have r: "\<exists>v rest. (\<forall>x. v \<noteq> Fin x) \<and>
      reduce_metrics ref_roc_auc_score [ex_log_empty] [] =
        (Inr (), [] @ \<lparr>m_key = ''loss'', m_value = Tensor v, m_weight = PyInt 0,
                        m_round = 3\<rparr> # rest)"
    using returns ne fwd nt by (rule_tac mp) (assumption, intro conjI)
  note python = reduce_metrics_zero_sample_size
    [OF n n n n, of ref_roc_auc_score "[]", THEN conjunct1]
  have p: "reduce_metrics ref_roc_auc_score [] [] = (Inl ZeroDivisionError, [])"
    using python by simp
  have t: "is_tensor (Tensor (Fin 0))" "\<not> is_tensor (PyInt 0)" by simp_all
  from e t(1) ne z ex_forward_empty r n [of "''loss''"] n [of "''sample_size''"] t(2) p
  show ?thesis by (intro conjI)
qed

text \<open>
  Claim C9. When the pooled targets do not hold exactly two distinct values, the result
  of \<open>reduce_metrics\<close> is the same for every \<open>roc_auc_score\<close>, which is therefore not
  called; every \<open>AUC\<close> metric logged has the value 1.0; and when the method returns and
  the keys for the score are present, \<open>AUC\<close> is logged as 1.0.
\<close>

theorem auc_one_unless_two_classes:
  fixes roc roc' :: "real list \<Rightarrow> real list \<Rightarrow> 'e + fl"
  assumes pooled: "chain_get ''targets'' logs = (Inr T :: 'e error + real list)"
    and classes: "card (set T) \<noteq> 2"
  shows "reduce_metrics roc logs ms = reduce_metrics roc' logs ms \<and>
         (\<exists>new. snd (reduce_metrics roc logs ms) = ms @ new \<and>
            (\<forall>m \<in> set new. m_key m = ''AUC'' \<longrightarrow> m_value m = PyFloat (Fin 1))) \<and>
         (fst (reduce_metrics roc logs ms) = Inr () \<and> auc_keys_present logs \<longrightarrow>
            (\<exists>ms2 nsentences.
               sum_get ''nsentences'' logs = (Inr nsentences :: 'e error + number) \<and>
               reduce_metrics roc logs ms =
                 (Inr (), ms2 @ [\<lparr>m_key = ''AUC'', m_value = PyFloat (Fin 1),
                                   m_weight = nsentences, m_round = 4\<rparr>])))"
proof -
  have len: "length (remdups T) \<noteq> 2"
    using classes by (simp add: length_remdups_card_conv)
  have a: "reduce_metrics roc logs ms = reduce_metrics roc' logs ms"
    unfolding reduce_metrics_def try_with_def Let_def
    using pooled len by (simp split: sum.splits)
  have b: "\<exists>new. snd (reduce_metrics roc logs ms) = ms @ new \<and>
            (\<forall>m \<in> set new. m_key m = ''AUC'' \<longrightarrow> m_value m = PyFloat (Fin 1))"
    unfolding reduce_metrics_def try_with_def Let_def log_scalar_def and_then_def
    using pooled len by (auto split: sum.splits)
  have c: "fst (reduce_metrics roc logs ms) = Inr () \<and> auc_keys_present logs \<longrightarrow>
            (\<exists>ms2 nsentences.
               sum_get ''nsentences'' logs = (Inr nsentences :: 'e error + number) \<and>
               reduce_metrics roc logs ms =
                 (Inr (), ms2 @ [\<lparr>m_key = ''AUC'', m_value = PyFloat (Fin 1),
                                   m_weight = nsentences, m_round = 4\<rparr>]))"
    unfolding reduce_metrics_def try_with_def Let_def log_scalar_def
    using pooled len by (auto split: sum.splits)
  from a b c show ?thesis by (intro conjI)
qed

theorem auc_one_unless_two_classes_witness:
  "chain_get ''targets'' [ex_log_one_class] = (Inr [1, 1] :: lib_exn error + real list) \<and>
   card (set [1, 1 :: real]) \<noteq> 2 \<and>
   auc_keys_present [ex_log_one_class] \<and>
   reduce_metrics ref_roc_auc_score [ex_log_one_class] [] =
     (Inr (),
      [\<lparr>m_key = ''loss'', m_value = Tensor (Fin 0), m_weight = PyInt 2, m_round = 3\<rparr>,
       \<lparr>m_key = ''nll_loss'', m_value = Tensor (Fin 0), m_weight = PyInt 12, m_round = 3\<rparr>,
       \<lparr>m_key = ''AUC'', m_value = PyFloat (Fin 1), m_weight = PyInt 2, m_round = 4\<rparr>]) \<and>
   reduce_metrics ref_roc_auc_score [ex_log_one_class] [] =
     reduce_metrics (\<lambda>y_true y_score. Inr (Fin 0)) [ex_log_one_class] []"
proof -
  have t: "chain_get ''targets'' [ex_log_one_class] = (Inr [1, 1] :: lib_exn error + real list)"
    by (simp add: chain_get_def dict_get_def and_then_def ex_log_one_class_def)
  have c: "card (set [1, 1 :: real]) \<noteq> 2" by simp
  have k: "auc_keys_present [ex_log_one_class]"
    by (simp add: auc_keys_present_def has_key_def ex_log_one_class_def)
  note indep = auc_one_unless_two_classes
    [OF t c, of ref_roc_auc_score "[]" "\<lambda>y_true y_score. Inr (Fin 0)", THEN conjunct1]
  from t c k ex_reduce_one_class indep show ?thesis by (intro conjI)
qed

end
